theory Spec2Isabelle
  imports Main "HOL-Library.Sublist" "HOL-Library.AList"
begin

section \<open>C strings and the libc calls of res\_stir\_shaken.c\<close>

text \<open>
  A \<open>char *\<close> argument that may be \<open>NULL\<close> is a \<open>string option\<close>; a buffer that the
  code has filled is a \<open>string\<close>. Lengths are byte counts. Allocation is taken to succeed
  (the \<open>ast_calloc\<close>/\<open>ast_strdup\<close> failure branches are not modelled).
\<close>

text \<open>
  Modelled from the spec: \<open>ast_strlen_zero\<close> (asterisk/strings.h) is not under src/;
  it is the spec's "empty or missing": a \<open>NULL\<close> pointer or a string of length zero.
\<close>

definition ast_strlen_zero :: "string option \<Rightarrow> bool" where
  "ast_strlen_zero s = (case s of None \<Rightarrow> True | Some t \<Rightarrow> t = [])"

text \<open>\<open>strstr\<close>: the suffix of the haystack that starts at the first occurrence.\<close>

fun strstr :: "string \<Rightarrow> string \<Rightarrow> string option" where
  "strstr [] needle = (if needle = [] then Some [] else None)"
| "strstr (c # cs) needle =
     (if prefix needle (c # cs) then Some (c # cs) else strstr cs needle)"

text \<open>\<open>strchr\<close>: the suffix that starts at the first occurrence of the character.\<close>

definition strchr :: "string \<Rightarrow> char \<Rightarrow> string option" where
  "strchr s c = (case dropWhile (\<lambda>x. x \<noteq> c) s of [] \<Rightarrow> None | r # rs \<Rightarrow> Some (r # rs))"

text \<open>
  \<open>snprintf(buf, size, ...)\<close> into a zeroed buffer: at most \<open>size - 1\<close> characters of the
  formatted text are kept.
\<close>

definition snprintf :: "nat \<Rightarrow> string \<Rightarrow> string" where
  "snprintf n formatted = take (n - 1) formatted"

text \<open>
  Numbers that the code holds in 64-bit variables are integers here, with the wrap-around
  written out where the code can wrap.
\<close>

definition digit_char :: "int \<Rightarrow> char" where
  "digit_char d = ''0123456789'' ! nat d"

function dec_string :: "int \<Rightarrow> string" where
  "dec_string n =
     (if n < 10 then [digit_char n] else dec_string (n div 10) @ [digit_char (n mod 10)])"
  by pat_completeness auto
termination
  by (relation "measure nat") auto

declare dec_string.simps [simp del]

text \<open>The conversion \<open>%30lu\<close>: an unsigned long in decimal, right-aligned in 30 columns.\<close>

definition fmt_30lu :: "int \<Rightarrow> string" where
  "fmt_30lu v =
     (let digits = dec_string (v mod 2 ^ 64)
      in replicate (30 - length digits) CHR '' '' @ digits)"

definition isspace :: "char \<Rightarrow> bool" where
  "isspace c = (c \<in> set [CHR '' '', CHR 0x09, CHR 0x0A, CHR 0x0B, CHR 0x0C, CHR 0x0D])"

definition digit_value :: "char \<Rightarrow> int option" where
  "digit_value c = map_of
     [(CHR ''0'', 0), (CHR ''1'', 1), (CHR ''2'', 2), (CHR ''3'', 3), (CHR ''4'', 4),
      (CHR ''5'', 5), (CHR ''6'', 6), (CHR ''7'', 7), (CHR ''8'', 8), (CHR ''9'', 9),
      (CHR ''a'', 10), (CHR ''b'', 11), (CHR ''c'', 12), (CHR ''d'', 13), (CHR ''e'', 14),
      (CHR ''f'', 15), (CHR ''A'', 10), (CHR ''B'', 11), (CHR ''C'', 12), (CHR ''D'', 13),
      (CHR ''E'', 14), (CHR ''F'', 15)] c"

fun parse_digits :: "int \<Rightarrow> string \<Rightarrow> int \<Rightarrow> int option" where
  "parse_digits base [] acc = Some acc"
| "parse_digits base (c # cs) acc =
     (case digit_value c of
        None \<Rightarrow> None
      | Some d \<Rightarrow> if d < base then parse_digits base cs (acc * base + d) else None)"

text \<open>
  Modelled from the spec: \<open>ast_str_to_umax\<close>, on which \<open>ast_str_to_uint\<close> and
  \<open>ast_str_to_ulong\<close> rest (asterisk/conversions.h), is not under src/. The spec only
  says that parsing a stored value can fail; the model follows the documented contract of
  the conversions API: the whole string must be one unsigned number (white space may
  precede it, base chosen as \<open>strtoumax\<close> does for base 0); a leading minus sign, any
  character that is not part of the number, no digit at all, or a value out of range is
  a failure (\<open>None\<close>).
\<close>

definition ast_str_to_umax :: "string \<Rightarrow> int option" where
  "ast_str_to_umax str =
     (let s1 = dropWhile isspace str in
      if prefix ''-'' s1 then None
      else
        let s2 = (if prefix ''+'' s1 then tl s1 else s1);
            hex = (prefix ''0x'' s2 \<or> prefix ''0X'' s2);
            base = (if hex then 16 else if prefix ''0'' s2 then 8 else 10);
            ds = (if hex then drop 2 s2 else s2)
        in if ds = [] then None
           else (case parse_digits base ds 0 of
                   None \<Rightarrow> None
                 | Some v \<Rightarrow> if v < 2 ^ 64 then Some v else None))"

text \<open>
  Modelled from the spec: \<open>ast_str_to_ulong\<close> (asterisk/conversions.h) is not under
  src/; the conversion above with the range of an \<open>unsigned long\<close> (64 bits).
\<close>

definition ast_str_to_ulong :: "string \<Rightarrow> int option" where
  "ast_str_to_ulong str =
     (case ast_str_to_umax str of
        None \<Rightarrow> None
      | Some v \<Rightarrow> if v > 2 ^ 64 - 1 then None else Some v)"

text \<open>
  Modelled from the spec: \<open>ast_str_to_uint\<close> (asterisk/conversions.h) is not under
  src/; the conversion above with the range of an \<open>unsigned int\<close> (32 bits).
\<close>

definition ast_str_to_uint :: "string \<Rightarrow> int option" where
  "ast_str_to_uint str =
     (case ast_str_to_ulong str of
        None \<Rightarrow> None
      | Some v \<Rightarrow> if v > 2 ^ 32 - 1 then None else Some v)"

section \<open>Time\<close>

record timeval =
  tv_sec :: int
  tv_usec :: int

text \<open>
  Modelled from the spec: \<open>ast_tvcmp\<close> (asterisk/time.h) is not under src/; the spec's
  \<open>now >= expiration\<close> is the order on (seconds, microseconds) pairs, returned as -1, 0, 1.
\<close>

definition ast_tvcmp :: "timeval \<Rightarrow> timeval \<Rightarrow> int" where
  "ast_tvcmp a b =
     (if tv_sec a < tv_sec b then -1
      else if tv_sec a > tv_sec b then 1
      else if tv_usec a < tv_usec b then -1
      else if tv_usec a > tv_usec b then 1
      else 0)"

section \<open>The external key/value store (AstDB) and the world the module acts on\<close>

type_synonym astdb = "string \<times> string \<Rightarrow> string option"

text \<open>
  The AstDB calls (asterisk/astdb.h) are not under src/; each follows the spec's KV
  contract: \<open>put(family, key, value)\<close>, \<open>get(family, key)\<close> returning the empty text on
  a miss, \<open>del(family, key)\<close> and \<open>del_tree(family, prefix)\<close>.
\<close>

text \<open>Modelled from the spec: \<open>ast_db_put\<close>, the contract's \<open>put\<close>; it overwrites.\<close>

definition ast_db_put :: "astdb \<Rightarrow> string \<Rightarrow> string \<Rightarrow> string \<Rightarrow> astdb" where
  "ast_db_put db family key v = db((family, key) \<mapsto> v)"

text \<open>
  Modelled from the spec: \<open>ast_db_get\<close>, the contract's \<open>get\<close>: the empty text on a
  miss; the value is copied into a buffer of \<open>valuelen\<close> bytes, so at most
  \<open>valuelen - 1\<close> characters come back.
\<close>

definition ast_db_get :: "astdb \<Rightarrow> string \<Rightarrow> string \<Rightarrow> nat \<Rightarrow> string" where
  "ast_db_get db family key valuelen =
     (case db (family, key) of None \<Rightarrow> [] | Some v \<Rightarrow> take (valuelen - 1) v)"

text \<open>Modelled from the spec: \<open>ast_db_del\<close>, the contract's \<open>del\<close>.\<close>

definition ast_db_del :: "astdb \<Rightarrow> string \<Rightarrow> string \<Rightarrow> astdb" where
  "ast_db_del db family key = db((family, key) := None)"

text \<open>
  Modelled from the spec: \<open>ast_db_deltree\<close>, the contract's \<open>del_tree\<close>, as the code
  calls it: with no prefix (\<open>NULL\<close>), it deletes every key of the family.
\<close>

definition ast_db_deltree :: "astdb \<Rightarrow> string \<Rightarrow> astdb" where
  "ast_db_deltree db family = (\<lambda>(f, k). if f = family then None else db (f, k))"

text \<open>The response headers the CURL callback collected; a header not sent is \<open>NULL\<close>.\<close>

record curl_cb_data =
  cache_control :: "string option"
  expires :: "string option"

text \<open>
  The mutable world: the AstDB, the files (path to content), the clock that \<open>ast_tvnow\<close>
  reads, and a log of the downloads made (\<open>curl_public_key\<close> calls, as url and path).
  The clock does not advance by itself during one call.
\<close>

record world =
  astdb :: astdb
  files :: "string \<rightharpoonup> string"
  now :: timeval
  fetches :: "(string \<times> string) list"

datatype json =
  JNull
| JBool bool
| JInteger int
| JString string
| JArray "json list"
| JObject "(string \<times> json) list"

text \<open>
  The collaborators that are outside res\_stir\_shaken.c, as parameters: the SHA-1
  rendering of a url, the configured data directory, libc's \<open>basename\<close>, the downloader
  (its new file system and, on success, the response headers), \<open>strptime\<close> followed by
  \<open>mktime\<close> on an Expires header, the PEM reader, the three
  \<open>EVP_DigestVerify*\<close> steps (1 is success), the base64 codec, the JSON reader and
  printer, the certificate store and the \<open>EVP_DigestSign*\<close> steps together (the raw
  signature, or \<open>None\<close> when a step fails).
\<close>

record certificate =
  cert_public_key_url :: string
  cert_private_key :: string

record env =
  ast_sha1_hash :: "string \<Rightarrow> string"
  ast_config_AST_DATA_DIR :: string
  basename :: "string \<Rightarrow> string"
  curl_public_key :: "string \<Rightarrow> string \<Rightarrow> (string \<rightharpoonup> string) \<Rightarrow> (string \<rightharpoonup> string) \<times> curl_cb_data option"
  strptime_mktime :: "string \<Rightarrow> int"
  stir_shaken_read_key :: "(string \<rightharpoonup> string) \<Rightarrow> string \<Rightarrow> string option"
  EVP_DigestVerifyInit :: "string \<Rightarrow> int"
  EVP_DigestVerifyUpdate :: "string \<Rightarrow> string \<Rightarrow> int"
  EVP_DigestVerifyFinal :: "string \<Rightarrow> string \<Rightarrow> string \<Rightarrow> nat \<Rightarrow> int"
  ast_base64decode :: "string \<Rightarrow> nat \<Rightarrow> string"
  ast_base64encode :: "string \<Rightarrow> nat \<Rightarrow> string"
  ast_json_load_string :: "string \<Rightarrow> json option"
  ast_json_dump_string :: "json \<Rightarrow> string option"
  stir_shaken_certificate_get_by_caller_id_number :: "string \<Rightarrow> certificate option"
  EVP_DigestSign :: "string \<Rightarrow> string \<Rightarrow> string option"

definition AST_DB_FAMILY :: string where
  "AST_DB_FAMILY = ''STIR_SHAKEN''"

definition STIR_SHAKEN_DIR_NAME :: string where
  "STIR_SHAKEN_DIR_NAME = ''stir_shaken''"

definition MAX_PATH_LEN :: nat where
  "MAX_PATH_LEN = 256"

section \<open>The key store (lines 155--285)\<close>

definition set_public_key_expiration :: "env \<Rightarrow> world \<Rightarrow> string \<Rightarrow> curl_cb_data \<Rightarrow> world" where
  "set_public_key_expiration e w public_key_url data =
     (let actual_expires = tv_sec (now w);
          hash = ast_sha1_hash e public_key_url;
          secs =
            (if \<not> ast_strlen_zero (cache_control data) then
               (case cache_control data of
                  None \<Rightarrow> actual_expires
                | Some v \<Rightarrow>
                    (case (case strstr v ''s-maxage'' of
                             None \<Rightarrow> strstr v ''max-age''
                           | Some s \<Rightarrow> Some s) of
                       None \<Rightarrow> actual_expires
                     | Some str_max_age \<Rightarrow>
                         (case strchr str_max_age CHR ''='' of
                            None \<Rightarrow> actual_expires
                          | Some equal_ptr \<Rightarrow>
                              (case ast_str_to_uint (tl equal_ptr) of
                                 None \<Rightarrow> actual_expires
                               | Some max_age \<Rightarrow> actual_expires + max_age))))
             else
               (case expires data of
                  None \<Rightarrow> actual_expires
                | Some v \<Rightarrow> if v = [] then actual_expires else strptime_mktime e v));
          time_buf = snprintf 32 (fmt_30lu secs)
      in w\<lparr>astdb := ast_db_put (astdb w) hash ''expiration'' time_buf\<rparr>)"

text \<open>
  The parsed unsigned long is stored through a cast into the signed \<open>tv_sec\<close>; the
  comparison is \<open>ast_tvcmp(current_time, expires) == -1 ? 0 : 1\<close>.
\<close>

definition public_key_is_expired :: "env \<Rightarrow> world \<Rightarrow> string \<Rightarrow> bool" where
  "public_key_is_expired e w public_key_url =
     (let current_time = now w;
          hash = ast_sha1_hash e public_key_url;
          expiration = ast_db_get (astdb w) hash ''expiration'' 32
      in if ast_strlen_zero (Some expiration) then True
         else (case ast_str_to_ulong expiration of
                 None \<Rightarrow> True
               | Some v \<Rightarrow>
                   (let expires_tv = \<lparr>tv_sec = (if v < 2 ^ 63 then v else v - 2 ^ 64),
                                   tv_usec = 0\<rparr>
                    in ast_tvcmp current_time expires_tv \<noteq> -1)))"

definition get_path_to_public_key :: "env \<Rightarrow> world \<Rightarrow> string \<Rightarrow> string" where
  "get_path_to_public_key e w public_key_url =
     (let hash = ast_sha1_hash e public_key_url;
          file_path = ast_db_get (astdb w) hash ''path'' MAX_PATH_LEN
      in if ast_strlen_zero (Some file_path) then [] else file_path)"

definition add_public_key_to_astdb :: "env \<Rightarrow> world \<Rightarrow> string \<Rightarrow> string \<Rightarrow> world" where
  "add_public_key_to_astdb e w public_key_url filepath =
     (let hash = ast_sha1_hash e public_key_url;
          db1 = ast_db_put (astdb w) AST_DB_FAMILY public_key_url hash;
          db2 = ast_db_put db1 hash ''path'' filepath
      in w\<lparr>astdb := db2\<rparr>)"

text \<open>libc's \<open>remove\<close> deletes the file at the path; a path with no file changes nothing.\<close>

definition remove_public_key_from_astdb :: "env \<Rightarrow> world \<Rightarrow> string \<Rightarrow> world" where
  "remove_public_key_from_astdb e w public_key_url =
     (let hash = ast_sha1_hash e public_key_url;
          filepath = ast_db_get (astdb w) hash ''path'' MAX_PATH_LEN;
          files1 = (files w)(filepath := None);
          db1 = ast_db_del (astdb w) AST_DB_FAMILY public_key_url;
          db2 = ast_db_deltree db1 hash
      in w\<lparr>astdb := db2, files := files1\<rparr>)"

section \<open>Errors\<close>

text \<open>
  The functions return \<open>NULL\<close> or -1 after one \<open>ast_log(LOG_ERROR, ...)\<close> line; the
  error value stands for that log line: \<open>InputError\<close> "'header' is required ...",
  \<open>FetchError\<close> "Could not retrieve public key", \<open>AlreadyDownloaded\<close> "Already
  downloaded public key", \<open>StaleAfterRefetch\<close> "Newly downloaded public key ... is
  expired", \<open>KeyReadError\<close> "Failed to read public key", \<open>SignatureError\<close> "Failed to
  verify signature", \<open>JsonError\<close> "Failed to create JSON from ...", \<open>ProfileError\<close>
  with the field named in "did not have the required field ..." (and the required and
  found values of "did not have required value ..."), \<open>NoCallerId\<close>,
  \<open>NoCertificateError\<close>, \<open>AddFieldError\<close> "Failed to add ... to payload",
  \<open>DumpError\<close> and \<open>CryptoError\<close> (no signature). \<open>NullPointerWrite\<close> is the store
  through a \<open>NULL\<close> pointer.
\<close>

datatype error =
  InputError string
| FetchError
| AlreadyDownloaded
| StaleAfterRefetch
| NullPointerWrite
| KeyReadError
| SignatureError
| JsonError string
| ProfileError string "string option" "string option"
| NoCallerId
| NoCertificateError string
| AddFieldError string
| DumpError
| CryptoError

section \<open>Signature check and download (lines 297--414)\<close>

text \<open>Lines 326--332: the count of trailing padding characters, at most two.\<close>

definition signature_padding :: "string \<Rightarrow> nat" where
  "signature_padding sig =
     (let signature_length = length sig in
      if signature_length > 2 \<and> sig ! (signature_length - 1) = CHR ''='' then
        (if sig ! (signature_length - 2) = CHR ''='' then 2 else 1)
      else 0)"

text \<open>Line 334, in \<open>size_t\<close> arithmetic (64 bits, the subtraction wraps).\<close>

definition decoded_signature_length :: "string \<Rightarrow> nat" where
  "decoded_signature_length sig =
     (let signature_length = length sig;
          padding = signature_padding sig
      in nat ((int (signature_length div 4 * 3) mod 2 ^ 64 - int padding) mod 2 ^ 64))"

definition stir_shaken_verify_signature :: "env \<Rightarrow> string \<Rightarrow> string \<Rightarrow> string \<Rightarrow> int" where
  "stir_shaken_verify_signature e msg sig public_key =
     (if EVP_DigestVerifyInit e public_key \<noteq> 1 then -1
      else if EVP_DigestVerifyUpdate e public_key msg \<noteq> 1 then -1
      else
        let n = decoded_signature_length sig;
            decoded_signature = ast_base64decode e sig n
        in if EVP_DigestVerifyFinal e public_key msg decoded_signature n \<noteq> 1 then -1 else 0)"

definition run_curl :: "env \<Rightarrow> world \<Rightarrow> string \<Rightarrow> string \<Rightarrow> (error + unit) \<times> world" where
  "run_curl e w url path =
     (case curl_public_key e url path (files w) of
        (files1, result) \<Rightarrow>
          (let w1 = w\<lparr>files := files1, fetches := fetches w @ [(url, path)]\<rparr>
           in case result of
                None \<Rightarrow> (Inl FetchError, w1)
              | Some data \<Rightarrow> (Inr (), set_public_key_expiration e w1 url data)))"

text \<open>
  \<open>curl\<close> is the pointer argument \<open>int *curl\<close>: \<open>None\<close> is \<open>NULL\<close>, \<open>Some v\<close> points
  at a flag holding \<open>v\<close>. The test of line 396 is \<open>if (curl)\<close>, on the pointer, so
  the lines after it run for a \<open>NULL\<close> pointer only, and the store \<open>*curl = 1\<close> of line
  410 is then a write through \<open>NULL\<close>. The result \<open>Inr v\<close> would be success with \<open>v\<close>
  stored in the flag.
\<close>

definition curl_and_check_expiration ::
  "env \<Rightarrow> world \<Rightarrow> string \<Rightarrow> string \<Rightarrow> int option \<Rightarrow> (error + int) \<times> world" where
  "curl_and_check_expiration e w url path curl =
     (case curl of
        Some flag \<Rightarrow> (Inl AlreadyDownloaded, w)
      | None \<Rightarrow>
          (case run_curl e w url path of
             (Inl err, w1) \<Rightarrow> (Inl err, w1)
           | (Inr u, w1) \<Rightarrow>
               if public_key_is_expired e w1 url then (Inl StaleAfterRefetch, w1)
               else (Inl NullPointerWrite, w1)))"

section \<open>Verification (lines 416--564)\<close>

definition sizeof_char :: nat where
  "sizeof_char = 1"

text \<open>
  Lines 464--494. The buffer is allocated with \<open>file_path_size\<close> bytes, and the
  \<open>snprintf\<close> of line 480 is given \<open>sizeof(*file_path)\<close>, the size of one \<open>char\<close>.
  The result is the path used from here on and the value of the \<open>curl\<close> flag.
\<close>

definition verify_download_missing ::
  "env \<Rightarrow> world \<Rightarrow> string \<Rightarrow> string \<Rightarrow> (error + string \<times> int) \<times> world" where
  "verify_download_missing e w url file_path =
     (if ast_strlen_zero (Some file_path) then
        (let w1 = remove_public_key_from_astdb e w url;
             filename = basename e url;
             file_path_size = length (ast_config_AST_DATA_DIR e) + 3
                 + length STIR_SHAKEN_DIR_NAME + length filename + 1;
             new_path = snprintf sizeof_char
                 (ast_config_AST_DATA_DIR e @ ''/keys/'' @ STIR_SHAKEN_DIR_NAME @ ''/'' @ filename)
         in case run_curl e w1 url new_path of
              (Inl err, w2) \<Rightarrow> (Inl err, w2)
            | (Inr u, w2) \<Rightarrow> (Inr (new_path, 1), add_public_key_to_astdb e w2 url new_path))
      else (Inr (file_path, 0), w))"

text \<open>Lines 497--507; \<open>&curl\<close> is a pointer to the flag.\<close>

definition verify_refresh_expired ::
  "env \<Rightarrow> world \<Rightarrow> string \<Rightarrow> string \<Rightarrow> int \<Rightarrow> (error + int) \<times> world" where
  "verify_refresh_expired e w url file_path curl =
     (if public_key_is_expired e w url then
        curl_and_check_expiration e (remove_public_key_from_astdb e w url) url file_path (Some curl)
      else (Inr curl, w))"

text \<open>Lines 511--528.\<close>

definition verify_read_key ::
  "env \<Rightarrow> world \<Rightarrow> string \<Rightarrow> string \<Rightarrow> int \<Rightarrow> (error + string) \<times> world" where
  "verify_read_key e w url file_path curl =
     (case stir_shaken_read_key e (files w) file_path of
        Some public_key \<Rightarrow> (Inr public_key, w)
      | None \<Rightarrow>
          (case curl_and_check_expiration e (remove_public_key_from_astdb e w url) url file_path
                  (Some curl) of
             (Inl err, w1) \<Rightarrow> (Inl err, w1)
           | (Inr curl1, w1) \<Rightarrow>
               (case stir_shaken_read_key e (files w1) file_path of
                  Some public_key \<Rightarrow> (Inr public_key, w1)
                | None \<Rightarrow> (Inl KeyReadError, remove_public_key_from_astdb e w1 url))))"

text \<open>Lines 461--528 together: from the lookup to a public key in hand.\<close>

definition verify_obtain_key :: "env \<Rightarrow> world \<Rightarrow> string \<Rightarrow> (error + string) \<times> world" where
  "verify_obtain_key e w url =
     (case verify_download_missing e w url (get_path_to_public_key e w url) of
        (Inl err, w1) \<Rightarrow> (Inl err, w1)
      | (Inr (file_path, curl), w1) \<Rightarrow>
          (case verify_refresh_expired e w1 url file_path curl of
             (Inl err, w2) \<Rightarrow> (Inl err, w2)
           | (Inr curl1, w2) \<Rightarrow> verify_read_key e w2 url file_path curl1))"

record ast_stir_shaken_payload =
  header :: "json option"
  payload :: "json option"
  signature :: "string option"
  algorithm :: "string option"
  public_key_url :: "string option"

text \<open>The string behind a pointer that \<open>ast_strlen_zero\<close> has found non-empty.\<close>

definition cstr :: "string option \<Rightarrow> string" where
  "cstr s = (case s of None \<Rightarrow> [] | Some t \<Rightarrow> t)"

definition ast_stir_shaken_verify ::
  "env \<Rightarrow> world \<Rightarrow> string option \<Rightarrow> string option \<Rightarrow> string option \<Rightarrow> string option
     \<Rightarrow> string option \<Rightarrow> (error + ast_stir_shaken_payload) \<times> world" where
  "ast_stir_shaken_verify e w hdr pld sig alg url =
     (if ast_strlen_zero hdr then (Inl (InputError ''header''), w)
      else if ast_strlen_zero pld then (Inl (InputError ''payload''), w)
      else if ast_strlen_zero sig then (Inl (InputError ''signature''), w)
      else if ast_strlen_zero alg then (Inl (InputError ''algorithm''), w)
      else if ast_strlen_zero url then (Inl (InputError ''public_key_url''), w)
      else
        (case verify_obtain_key e w (cstr url) of
           (Inl err, w1) \<Rightarrow> (Inl err, w1)
         | (Inr public_key, w1) \<Rightarrow>
             if stir_shaken_verify_signature e (cstr pld) (cstr sig) public_key \<noteq> 0
             then (Inl SignatureError, w1)
             else
               (case ast_json_load_string e (cstr hdr) of
                  None \<Rightarrow> (Inl (JsonError ''header''), w1)
                | Some jh \<Rightarrow>
                    (case ast_json_load_string e (cstr pld) of
                       None \<Rightarrow> (Inl (JsonError ''payload''), w1)
                     | Some jp \<Rightarrow>
                         (Inr \<lparr>header = Some jh, payload = Some jp, signature = Some (cstr sig),
                               algorithm = Some (cstr alg), public_key_url = Some (cstr url)\<rparr>,
                          w1)))))"

section \<open>JSON values\<close>

text \<open>
  The JSON calls (asterisk/json.h) are not under src/. The spec speaks of parsed JSON
  objects, of fields read by name and of deep copies; an object is a list of members, the
  first of a name being the one a read finds.
\<close>

text \<open>
  Modelled from the spec: \<open>ast_json_object_get\<close>, the read of a field by name; the
  member of something that is not an object (or of \<open>NULL\<close>) is \<open>NULL\<close>.
\<close>

definition ast_json_object_get :: "json option \<Rightarrow> string \<Rightarrow> json option" where
  "ast_json_object_get obj key =
     (case obj of Some (JObject members) \<Rightarrow> map_of members key | _ \<Rightarrow> None)"

text \<open>
  Modelled from the spec: \<open>ast_json_string_get\<close>, the text of a string value; \<open>NULL\<close>
  for anything that is not a string.
\<close>

definition ast_json_string_get :: "json option \<Rightarrow> string option" where
  "ast_json_string_get j = (case j of Some (JString s) \<Rightarrow> Some s | _ \<Rightarrow> None)"

text \<open>
  Modelled from the spec: \<open>ast_json_deep_copy\<close>, the spec's deep copy; values do not
  change here, so the copy of a value is the value.
\<close>

definition ast_json_deep_copy :: "json \<Rightarrow> json option" where
  "ast_json_deep_copy j = Some j"

text \<open>
  Modelled from the spec: \<open>ast_json_string_create\<close>, a JSON string value of a text;
  \<open>NULL\<close> for \<open>NULL\<close>.
\<close>

definition ast_json_string_create :: "string option \<Rightarrow> json option" where
  "ast_json_string_create s = (case s of None \<Rightarrow> None | Some t \<Rightarrow> Some (JString t))"

text \<open>
  Modelled from the spec: \<open>ast_json_object_set\<close>, as the code calls it,
  \<open>ast_json_object_set(ast_json_object_get(json, sect), key, value)\<close>: the spec's
  mutation of the input JSON in place. The member of that name is replaced, or added;
  the call fails (-1) when the target is not an object or the value is \<open>NULL\<close>. The
  result is the return code and the caller's JSON afterwards.
\<close>

definition json_set_in :: "json \<Rightarrow> string \<Rightarrow> string \<Rightarrow> json option \<Rightarrow> int \<times> json" where
  "json_set_in j sect key val =
     (case val of
        None \<Rightarrow> (-1, j)
      | Some v \<Rightarrow>
          (case j of
             JObject root \<Rightarrow>
               (case map_of root sect of
                  Some (JObject members) \<Rightarrow>
                    (0, JObject (AList.update sect (JObject (AList.update key v members)) root))
                | _ \<Rightarrow> (-1, j))
           | _ \<Rightarrow> (-1, j)))"

section \<open>Signing (lines 575--907)\<close>

definition STIR_SHAKEN_ENCRYPTION_ALGORITHM :: string where
  "STIR_SHAKEN_ENCRYPTION_ALGORITHM = ''ES256''"

definition STIR_SHAKEN_PPT :: string where
  "STIR_SHAKEN_PPT = ''shaken''"

definition STIR_SHAKEN_TYPE :: string where
  "STIR_SHAKEN_TYPE = ''passport''"

text \<open>The payload as \<open>ast_calloc\<close> leaves it: every pointer \<open>NULL\<close>.\<close>

definition calloc_payload :: ast_stir_shaken_payload where
  "calloc_payload =
     \<lparr>header = None, payload = None, signature = None, algorithm = None, public_key_url = None\<rparr>"

text \<open>
  One of the three header checks of lines 600--634: the value has to be a non-empty
  string equal to the required one.
\<close>

definition check_required :: "json \<Rightarrow> string \<Rightarrow> string \<Rightarrow> error + string" where
  "check_required obj field required =
     (let val = ast_json_string_get (ast_json_object_get (Some obj) field) in
      if ast_strlen_zero val then Inl (ProfileError field None None)
      else if cstr val \<noteq> required then Inl (ProfileError field (Some required) val)
      else Inr (cstr val))"

definition stir_shaken_verify_json :: "json \<Rightarrow> error + ast_stir_shaken_payload" where
  "stir_shaken_verify_json j =
     (case ast_json_object_get (Some j) ''header'' of
        None \<Rightarrow> Inl (ProfileError ''header'' None None)
      | Some obj \<Rightarrow>
          (case check_required obj ''ppt'' STIR_SHAKEN_PPT of
             Inl err \<Rightarrow> Inl err
           | Inr v1 \<Rightarrow>
          (case check_required obj ''typ'' STIR_SHAKEN_TYPE of
             Inl err \<Rightarrow> Inl err
           | Inr v2 \<Rightarrow>
          (case check_required obj ''alg'' STIR_SHAKEN_ENCRYPTION_ALGORITHM of
             Inl err \<Rightarrow> Inl err
           | Inr val \<Rightarrow>
          (case ast_json_object_get (Some j) ''payload'' of
             None \<Rightarrow> Inl (ProfileError ''payload'' None None)
           | Some obj2 \<Rightarrow>
               if ast_strlen_zero (ast_json_string_get
                    (ast_json_object_get (ast_json_object_get (Some obj2) ''orig'') ''tn''))
               then Inl (ProfileError ''orig->tn'' None None)
               else Inr (calloc_payload\<lparr>header := ast_json_deep_copy obj,
                           algorithm := Some val,
                           payload := ast_json_deep_copy obj2\<rparr>))))))"

text \<open>Line 729: \<open>((signature_length * 4 / 3 + 3) & ~3) + 1\<close>.\<close>

definition encoded_length :: "nat \<Rightarrow> nat" where
  "encoded_length signature_length = (signature_length * 4 div 3 + 3) div 4 * 4 + 1"

definition stir_shaken_sign :: "env \<Rightarrow> string \<Rightarrow> string \<Rightarrow> string option" where
  "stir_shaken_sign e json_str private_key =
     (case EVP_DigestSign e private_key json_str of
        None \<Rightarrow> None
      | Some raw \<Rightarrow> Some (ast_base64encode e raw (encoded_length (length raw))))"

definition stir_shaken_add_x5u :: "json \<Rightarrow> string option \<Rightarrow> int \<times> json" where
  "stir_shaken_add_x5u j x5u =
     (case ast_json_string_create x5u of
        None \<Rightarrow> (-1, j)
      | Some v \<Rightarrow> json_set_in j ''header'' ''x5u'' (Some v))"

definition stir_shaken_add_attest :: "json \<Rightarrow> string option \<Rightarrow> int \<times> json" where
  "stir_shaken_add_attest j attest =
     (case ast_json_string_create attest of
        None \<Rightarrow> (-1, j)
      | Some v \<Rightarrow> json_set_in j ''payload'' ''attest'' (Some v))"

definition stir_shaken_add_origid :: "json \<Rightarrow> string option \<Rightarrow> int \<times> json" where
  "stir_shaken_add_origid j origid =
     (if origid = None then (-1, j)
      else json_set_in j ''payload'' ''origid'' (ast_json_string_create origid))"

text \<open>
  Line 825: \<open>int timestamp = tv.tv_sec + tv.tv_usec / 1000\<close>; the division truncates
  and the sum is cut to a 32-bit \<open>int\<close>.
\<close>

definition iat_timestamp :: "timeval \<Rightarrow> int" where
  "iat_timestamp tv =
     (let usec = tv_usec tv;
          ms = (if 0 \<le> usec then usec div 1000 else - ((- usec) div 1000));
          total = tv_sec tv + ms
      in (total + 2 ^ 31) mod 2 ^ 32 - 2 ^ 31)"

definition stir_shaken_add_iat :: "json \<Rightarrow> timeval \<Rightarrow> int \<times> json" where
  "stir_shaken_add_iat j tv =
     json_set_in j ''payload'' ''iat'' (Some (JInteger (iat_timestamp tv)))"

text \<open>
  \<open>ast_stir_shaken_sign\<close> at clock reading \<open>tv\<close>: the result (the payload or the
  error) and the caller's JSON as the call leaves it.
\<close>

definition ast_stir_shaken_sign ::
  "env \<Rightarrow> timeval \<Rightarrow> json \<Rightarrow> (error + ast_stir_shaken_payload) \<times> json" where
  "ast_stir_shaken_sign e tv j =
     (case stir_shaken_verify_json j of
        Inl err \<Rightarrow> (Inl err, j)
      | Inr pl \<Rightarrow>
     (case ast_json_string_get (ast_json_object_get (ast_json_object_get
              (ast_json_object_get (Some j) ''payload'') ''orig'') ''tn'') of
        None \<Rightarrow> (Inl NoCallerId, j)
      | Some caller_id_num \<Rightarrow>
     (case stir_shaken_certificate_get_by_caller_id_number e caller_id_num of
        None \<Rightarrow> (Inl (NoCertificateError caller_id_num), j)
      | Some cert \<Rightarrow>
     (case stir_shaken_add_x5u j (Some (cert_public_key_url cert)) of (r1, j1) \<Rightarrow>
        if r1 \<noteq> 0 then (Inl (AddFieldError ''x5u''), j1) else
     (case stir_shaken_add_attest j1 (Some ''B'') of (r2, j2) \<Rightarrow>
        if r2 \<noteq> 0 then (Inl (AddFieldError ''attest''), j2) else
     (case stir_shaken_add_origid j2 (Some ''asterisk'') of (r3, j3) \<Rightarrow>
        if r3 \<noteq> 0 then (Inl (AddFieldError ''origid''), j3) else
     (case stir_shaken_add_iat j3 tv of (r4, j4) \<Rightarrow>
        if r4 \<noteq> 0 then (Inl (AddFieldError ''iat''), j4) else
     (case ast_json_dump_string e j4 of
        None \<Rightarrow> (Inl DumpError, j4)
      | Some json_str \<Rightarrow>
     (case stir_shaken_sign e json_str (cert_private_key cert) of
        None \<Rightarrow> (Inl CryptoError, j4)
      | Some sg \<Rightarrow> (Inr (pl\<lparr>signature := Some sg\<rparr>), j4))))))))))"

section \<open>The spec's words for the padding of a signature\<close>

text \<open>The number of trailing \<open>=\<close> characters of a text.\<close>

definition trailing_padding :: "string \<Rightarrow> nat" where
  "trailing_padding s = length (takeWhile (\<lambda>c. c = CHR ''='') (rev s))"

section \<open>A concrete environment for worked examples\<close>

text \<open>
  Stand-ins for the collaborators, small enough to evaluate: the hash of a url is the url
  behind a tag, every download succeeds, writes a PEM with key \<open>k\<close> at the path it is
  given and answers \<open>Cache-Control: max-age=3600\<close>; a file is a key when it starts with
  \<open>PEM:\<close>; a decoded signature is good when it is the first bytes of key and message;
  the certificate store knows two callers, each with a certificate of its own.
\<close>

definition demo_read_key :: "(string \<rightharpoonup> string) \<Rightarrow> string \<Rightarrow> string option" where
  "demo_read_key fs path =
     (case fs path of
        None \<Rightarrow> None
      | Some content \<Rightarrow> if prefix ''PEM:'' content then Some (drop 4 content) else None)"

definition demo_url :: string where
  "demo_url = ''http://example.com/cert.pem''"

definition demo_env :: env where
  "demo_env =
     \<lparr>ast_sha1_hash = (\<lambda>u. ''sha1:'' @ u),
      ast_config_AST_DATA_DIR = ''/var/lib/asterisk'',
      basename = (\<lambda>u. rev (takeWhile (\<lambda>c. c \<noteq> CHR ''/'') (rev u))),
      curl_public_key = (\<lambda>u path fs.
         (fs(path \<mapsto> ''PEM:k''),
          Some \<lparr>cache_control = Some ''max-age=3600'', expires = None\<rparr>)),
      strptime_mktime = (\<lambda>s. 0),
      stir_shaken_read_key = demo_read_key,
      EVP_DigestVerifyInit = (\<lambda>k. 1),
      EVP_DigestVerifyUpdate = (\<lambda>k m. 1),
      EVP_DigestVerifyFinal = (\<lambda>k m s n. if s = take n (k @ m) then 1 else 0),
      ast_base64decode = (\<lambda>s n. take n s),
      ast_base64encode = (\<lambda>s n. take (n - 1) (s @ ''==='')),
      ast_json_load_string = (\<lambda>s. Some (JString s)),
      ast_json_dump_string = (\<lambda>j. Some ''{}''),
      stir_shaken_certificate_get_by_caller_id_number = (\<lambda>tn.
         if tn = ''+15551234567''
         then Some \<lparr>cert_public_key_url = demo_url, cert_private_key = ''k''\<rparr>
         else if tn = ''+15557654321''
         then Some \<lparr>cert_public_key_url = ''http://example.com/other.pem'',
                     cert_private_key = ''key2''\<rparr>
         else None),
      EVP_DigestSign = (\<lambda>k m. Some (k @ m))\<rparr>"

text \<open>
  A store that holds the demo url with the given expiration text, the PEM file in place,
  and the clock at 2000 seconds.
\<close>

definition cached_world :: "string \<Rightarrow> world" where
  "cached_world expiration =
     \<lparr>astdb = [(AST_DB_FAMILY, demo_url) \<mapsto> ''sha1:'' @ demo_url,
               (''sha1:'' @ demo_url, ''path'') \<mapsto> ''/keys/cert.pem'',
               (''sha1:'' @ demo_url, ''expiration'') \<mapsto> expiration],
      files = [''/keys/cert.pem'' \<mapsto> ''PEM:k''],
      now = \<lparr>tv_sec = 2000, tv_usec = 0\<rparr>,
      fetches = []\<rparr>"

text \<open>
  A well-formed JWT for the second caller of the demo certificate store, one without
  its \<open>typ\<close>, and what a signing at second 2000 returns and leaves in the caller's JSON.
\<close>

definition demo_jwt :: json where
  "demo_jwt = JObject
     [(''header'', JObject [(''alg'', JString ''ES256''), (''ppt'', JString ''shaken''),
                            (''typ'', JString ''passport'')]),
      (''payload'', JObject [(''orig'', JObject [(''tn'', JString ''+15557654321'')])])]"

definition demo_jwt_no_typ :: json where
  "demo_jwt_no_typ = JObject
     [(''header'', JObject [(''alg'', JString ''ES256''), (''ppt'', JString ''shaken'')]),
      (''payload'', JObject [(''orig'', JObject [(''tn'', JString ''+15551234567'')])])]"

definition demo_signed :: ast_stir_shaken_payload where
  "demo_signed =
     \<lparr>header = Some (JObject [(''alg'', JString ''ES256''), (''ppt'', JString ''shaken''),
                               (''typ'', JString ''passport'')]),
      payload = Some (JObject [(''orig'', JObject [(''tn'', JString ''+15557654321'')])]),
      signature = Some ''key2{}=='', algorithm = Some ''ES256'', public_key_url = None\<rparr>"

definition demo_jwt_signed :: json where
  "demo_jwt_signed = JObject
     [(''header'', JObject [(''alg'', JString ''ES256''), (''ppt'', JString ''shaken''),
                            (''typ'', JString ''passport''),
                            (''x5u'', JString ''http://example.com/other.pem'')]),
      (''payload'', JObject [(''orig'', JObject [(''tn'', JString ''+15557654321'')]),
                             (''attest'', JString ''B''), (''origid'', JString ''asterisk''),
                             (''iat'', JInteger 2000)])]"

text \<open>An empty store and no files, with the clock at the given second.\<close>

definition empty_world :: "int \<Rightarrow> world" where
  "empty_world t =
     \<lparr>astdb = Map.empty, files = Map.empty, now = \<lparr>tv_sec = t, tv_usec = 0\<rparr>, fetches = []\<rparr>"

section \<open>The spec's words for the JWT profile\<close>

text \<open>
  The fields the profile names, read as the spec writes them (\<open>header.ppt\<close>,
  \<open>payload.orig.tn\<close>), and the first constraint that an input breaks, in the order
  header, ppt, typ, alg, payload, orig.tn; a missing header or payload object (all its
  fields are missing then) is named as such.
\<close>

definition json_member :: "json \<Rightarrow> string \<Rightarrow> string \<Rightarrow> json option" where
  "json_member j sect key = ast_json_object_get (ast_json_object_get (Some j) sect) key"

definition header_field :: "json \<Rightarrow> string \<Rightarrow> string option" where
  "header_field j k =
     ast_json_string_get (ast_json_object_get (ast_json_object_get (Some j) ''header'') k)"

definition orig_tn :: "json \<Rightarrow> string option" where
  "orig_tn j = ast_json_string_get (ast_json_object_get (ast_json_object_get
       (ast_json_object_get (Some j) ''payload'') ''orig'') ''tn'')"

definition profile_violation :: "json \<Rightarrow> string option" where
  "profile_violation j =
     (if ast_json_object_get (Some j) ''header'' = None then Some ''header''
      else if header_field j ''ppt'' \<noteq> Some ''shaken'' then Some ''ppt''
      else if header_field j ''typ'' \<noteq> Some ''passport'' then Some ''typ''
      else if header_field j ''alg'' \<noteq> Some ''ES256'' then Some ''alg''
      else if ast_json_object_get (Some j) ''payload'' = None then Some ''payload''
      else if orig_tn j = None \<or> orig_tn j = Some [] then Some ''orig->tn''
      else None)"

section \<open>Properties of the key store\<close>

lemma ast_db_get_deltree:
  "ast_db_get (ast_db_deltree db family) family key n = []"
  by (simp add: ast_db_get_def ast_db_deltree_def)

text \<open>
  C8. For every url, right after \<open>remove_public_key_from_astdb\<close> the lookup of the url
  returns the empty path and the url counts as expired, whatever the store held before
  and whatever the clock says.
\<close>

theorem remove_then_lookup_empty_and_expired:
  "get_path_to_public_key e (remove_public_key_from_astdb e w url) url = [] \<and>
   public_key_is_expired e (remove_public_key_from_astdb e w url) url"
  by (simp add: get_path_to_public_key_def public_key_is_expired_def
      remove_public_key_from_astdb_def ast_db_get_deltree ast_strlen_zero_def Let_def)

section \<open>The decoded length of a signature\<close>

lemma signature_padding_eq_trailing:
  assumes "length s \<ge> 3" "trailing_padding s \<le> 2"
  shows "signature_padding s = trailing_padding s"
proof -
  from assms(1) obtain xs a b where s: "s = xs @ [a, b]" and xs: "xs \<noteq> []"
  proof -
    have "s \<noteq> []" using assms(1) by auto
    then obtain ys b where 1: "s = ys @ [b]" by (metis rev_exhaust)
    then have "ys \<noteq> []" using assms(1) by auto
    then obtain zs a where 2: "ys = zs @ [a]" by (metis rev_exhaust)
    have "zs \<noteq> []" using assms(1) 1 2 by auto
    with 1 2 that show thesis by simp
  qed
  show ?thesis
    using assms(2) assms(1)
    by (auto simp: signature_padding_def trailing_padding_def Let_def nth_append s)
qed

text \<open>
  C7. For a base64 signature text (its length \<open>L\<close> a multiple of 4, as a C string shorter
  than \<open>2^64\<close>, with \<open>p\<close> trailing \<open>=\<close> characters, of which base64 has at most two)
  the signature check \<open>stir_shaken_verify_signature\<close> decodes the text into
  \<open>L / 4 * 3 - p\<close> bytes and hands the final step of the verification that many bytes:
  once the first two steps have passed, its result is the outcome of the final step on
  the text decoded to that length. The subtraction does not go below zero.
\<close>

theorem decoded_length_of_base64:
  assumes "length s mod 4 = 0" "length s < 2 ^ 64" "trailing_padding s \<le> 2"
  shows "decoded_signature_length s = length s div 4 * 3 - trailing_padding s \<and>
         (s = [] \<or> trailing_padding s < length s div 4 * 3) \<and>
         stir_shaken_verify_signature e msg s public_key =
           (if EVP_DigestVerifyInit e public_key \<noteq> 1 then -1
            else if EVP_DigestVerifyUpdate e public_key msg \<noteq> 1 then -1
            else if EVP_DigestVerifyFinal e public_key msg
                      (ast_base64decode e s (length s div 4 * 3 - trailing_padding s))
                      (length s div 4 * 3 - trailing_padding s) \<noteq> 1 then -1
            else 0)"
proof -
  have n: "decoded_signature_length s = length s div 4 * 3 - trailing_padding s \<and>
         (s = [] \<or> trailing_padding s < length s div 4 * 3)"
  proof (cases "s = []")
    case True
    then show ?thesis
      by (simp add: decoded_signature_length_def signature_padding_def trailing_padding_def)
  next
    case False
    with assms(1) have len: "length s \<ge> 4"
      by (metis Suc_leI length_greater_0_conv mod_less not_less_eq_eq numeral_eq_Suc
          less_numeral_extra(3) linorder_not_less)
    then have p: "signature_padding s = trailing_padding s"
      using signature_padding_eq_trailing assms(3) by simp
    have d: "length s div 4 \<ge> 1" using len by simp
    then have big: "length s div 4 * 3 \<ge> 3" by simp
    have small: "length s div 4 * 3 < 2 ^ 64" using assms(2) by simp
    have "int (length s div 4 * 3) mod 2 ^ 64 = int (length s div 4 * 3)"
      using small by (simp add: zmod_int[symmetric] del: of_nat_mult)
    moreover have "(int (length s div 4 * 3) - int (trailing_padding s)) mod 2 ^ 64
        = int (length s div 4 * 3) - int (trailing_padding s)"
      using small big assms(3) by (intro mod_pos_pos_trivial) (simp_all del: of_nat_mult)
    ultimately have "decoded_signature_length s
        = nat (int (length s div 4 * 3) - int (trailing_padding s))"
      by (simp add: decoded_signature_length_def Let_def p)
    then show ?thesis using big assms(3) False by simp
  qed
  then have "stir_shaken_verify_signature e msg s public_key =
           (if EVP_DigestVerifyInit e public_key \<noteq> 1 then -1
            else if EVP_DigestVerifyUpdate e public_key msg \<noteq> 1 then -1
            else if EVP_DigestVerifyFinal e public_key msg
                      (ast_base64decode e s (length s div 4 * 3 - trailing_padding s))
                      (length s div 4 * 3 - trailing_padding s) \<noteq> 1 then -1
            else 0)"
    by (simp add: stir_shaken_verify_signature_def Let_def)
  with n show ?thesis by blast
qed

text \<open>
  In the demo environment the decoded bytes are the first bytes of the text: of \<open>QUI=\<close>
  the check reads two bytes, \<open>QU\<close>, which are the first two bytes of key and message, so
  it passes; read to any other length it would not.
\<close>

theorem decoded_length_of_base64_witness:
  "length ''QUI='' mod 4 = 0 \<and> trailing_padding ''QUI='' = 1
   \<and> decoded_signature_length ''QUI='' = 2
   \<and> stir_shaken_verify_signature demo_env ''Uxyz'' ''QUI='' ''Q'' = 0
   \<and> stir_shaken_verify_signature demo_env ''Uxyz'' ''QUI='' ''Z'' = -1"
  using decoded_length_of_base64 [of "''QUI=''" demo_env "''Uxyz''" "''Q''"]
    decoded_length_of_base64 [of "''QUI=''" demo_env "''Uxyz''" "''Z''"]
  by (simp add: trailing_padding_def demo_env_def)

section \<open>Verification: arguments\<close>

text \<open>
  C9. When any of the five arguments of a verification is missing or empty, the call
  fails with the input error of the first such argument, and the world (the store, the
  files, the download log) is the one it was called in: the checks of lines 426--449
  come before the first call of the store, the file system or the downloader.
\<close>

theorem verify_empty_argument_is_input_error:
  assumes "ast_strlen_zero hdr \<or> ast_strlen_zero pld \<or> ast_strlen_zero sig
           \<or> ast_strlen_zero alg \<or> ast_strlen_zero url"
  shows "ast_stir_shaken_verify e w hdr pld sig alg url =
           (Inl (InputError
              (if ast_strlen_zero hdr then ''header''
               else if ast_strlen_zero pld then ''payload''
               else if ast_strlen_zero sig then ''signature''
               else if ast_strlen_zero alg then ''algorithm''
               else ''public_key_url'')), w)"
  using assms by (auto simp: ast_stir_shaken_verify_def)

theorem verify_empty_argument_is_input_error_witness:
  "ast_stir_shaken_verify demo_env (empty_world 2000) (Some ''{}'') (Some ''{}'')
       (Some ''kpayAA=='') None (Some demo_url)
     = (Inl (InputError ''algorithm''), empty_world 2000)
   \<and> ast_stir_shaken_verify demo_env (empty_world 2000) (Some []) (Some ''{}'')
       (Some ''kpayAA=='') (Some ''ES256'') (Some demo_url)
     = (Inl (InputError ''header''), empty_world 2000)"
  using verify_empty_argument_is_input_error
    [of "Some ''{}''" "Some ''{}''" "Some ''kpayAA==''" None "Some demo_url"
        demo_env "empty_world 2000"]
    verify_empty_argument_is_input_error
    [of "Some []" "Some ''{}''" "Some ''kpayAA==''" "Some ''ES256''" "Some demo_url"
        demo_env "empty_world 2000"]
  by (simp add: ast_strlen_zero_def)

lemma cstr_nonempty: "\<not> ast_strlen_zero s \<Longrightarrow> Some (cstr s) = s"
  by (cases s) (simp_all add: ast_strlen_zero_def cstr_def)

text \<open>
  C10. Two verifications that differ only in their (non-empty) algorithm argument end in
  the same world and with the same outcome: the same error, or the same payload up to
  its algorithm field, which holds the argument as given. The signature check
  \<open>stir_shaken_verify_signature\<close> has no algorithm parameter at all.
\<close>

theorem verify_algorithm_only_copied:
  assumes "\<not> ast_strlen_zero alg1" "\<not> ast_strlen_zero alg2"
  shows "ast_stir_shaken_verify e w hdr pld sig alg2 url =
           (map_sum id (\<lambda>r. r\<lparr>algorithm := alg2\<rparr>)
              (fst (ast_stir_shaken_verify e w hdr pld sig alg1 url)),
            snd (ast_stir_shaken_verify e w hdr pld sig alg1 url))"
  using assms
  by (auto simp: ast_stir_shaken_verify_def cstr_nonempty
      split: prod.splits sum.splits option.splits)

theorem verify_algorithm_only_copied_witness:
  "ast_stir_shaken_verify demo_env (cached_world (fmt_30lu 5000)) (Some ''{}'') (Some ''pay'')
       (Some ''kpayAA=='') (Some ''RS256'') (Some demo_url) =
     (Inr \<lparr>header = Some (JString ''{}''), payload = Some (JString ''pay''),
           signature = Some ''kpayAA=='', algorithm = Some ''RS256'',
           public_key_url = Some demo_url\<rparr>,
      snd (ast_stir_shaken_verify demo_env (cached_world (fmt_30lu 5000)) (Some ''{}'')
        (Some ''pay'') (Some ''kpayAA=='') (Some ''ES256'') (Some demo_url)))"
proof -
  have r: "fst (ast_stir_shaken_verify demo_env (cached_world (fmt_30lu 5000)) (Some ''{}'')
        (Some ''pay'') (Some ''kpayAA=='') (Some ''ES256'') (Some demo_url)) =
      Inr \<lparr>header = Some (JString ''{}''), payload = Some (JString ''pay''),
           signature = Some ''kpayAA=='', algorithm = Some ''ES256'',
           public_key_url = Some demo_url\<rparr>"
    by code_simp
  have a: "\<not> ast_strlen_zero (Some ''ES256'')" "\<not> ast_strlen_zero (Some ''RS256'')"
    by (simp_all add: ast_strlen_zero_def)
  show ?thesis
    using verify_algorithm_only_copied [OF a, of demo_env "cached_world (fmt_30lu 5000)"
        "Some ''{}''" "Some ''pay''" "Some ''kpayAA==''" "Some demo_url"]
    by (simp add: r)
qed

section \<open>Verification: a warm cache\<close>

lemma ast_strlen_zero_Some: "ast_strlen_zero (Some t) \<longleftrightarrow> t = []"
  by (simp add: ast_strlen_zero_def)

text \<open>
  A verification that finds the url cached, unexpired and readable, with a signature that
  checks and texts that parse, succeeds with the five inputs in the payload and changes
  nothing: the store and the files are as before, and nothing was downloaded.
\<close>

theorem verify_warm_cache_unchanged:
  assumes "\<not> ast_strlen_zero hdr" "\<not> ast_strlen_zero pld" "\<not> ast_strlen_zero sig"
    "\<not> ast_strlen_zero alg" "\<not> ast_strlen_zero url"
    "get_path_to_public_key e w (cstr url) \<noteq> []"
    "\<not> public_key_is_expired e w (cstr url)"
    "stir_shaken_read_key e (files w) (get_path_to_public_key e w (cstr url)) = Some k"
    "stir_shaken_verify_signature e (cstr pld) (cstr sig) k = 0"
    "ast_json_load_string e (cstr hdr) = Some jh"
    "ast_json_load_string e (cstr pld) = Some jp"
  shows "ast_stir_shaken_verify e w hdr pld sig alg url =
           (Inr \<lparr>header = Some jh, payload = Some jp, signature = sig, algorithm = alg,
                 public_key_url = url\<rparr>, w)"
  using assms
  by (simp add: ast_stir_shaken_verify_def verify_obtain_key_def verify_download_missing_def
      verify_refresh_expired_def verify_read_key_def cstr_nonempty
      ast_strlen_zero_Some [of "get_path_to_public_key e w (cstr url)"])

theorem verify_warm_cache_unchanged_witness:
  "ast_stir_shaken_verify demo_env (cached_world (fmt_30lu 5000)) (Some ''{}'') (Some ''pay'')
       (Some ''kpayAA=='') (Some ''ES256'') (Some demo_url) =
     (Inr \<lparr>header = Some (JString ''{}''), payload = Some (JString ''pay''),
           signature = Some ''kpayAA=='', algorithm = Some ''ES256'',
           public_key_url = Some demo_url\<rparr>, cached_world (fmt_30lu 5000))"
proof -
  have a: "\<not> ast_strlen_zero (Some ''{}'')" "\<not> ast_strlen_zero (Some ''pay'')"
    "\<not> ast_strlen_zero (Some ''kpayAA=='')" "\<not> ast_strlen_zero (Some ''ES256'')"
    "\<not> ast_strlen_zero (Some demo_url)"
    by (simp_all add: ast_strlen_zero_def demo_url_def)
  have p: "get_path_to_public_key demo_env (cached_world (fmt_30lu 5000)) (cstr (Some demo_url))
           \<noteq> []"
    by code_simp
  have x: "\<not> public_key_is_expired demo_env (cached_world (fmt_30lu 5000)) (cstr (Some demo_url))"
    by code_simp
  have k: "stir_shaken_read_key demo_env (files (cached_world (fmt_30lu 5000)))
             (get_path_to_public_key demo_env (cached_world (fmt_30lu 5000))
                (cstr (Some demo_url))) = Some ''k''"
    by code_simp
  have v: "stir_shaken_verify_signature demo_env (cstr (Some ''pay'')) (cstr (Some ''kpayAA==''))
             ''k'' = 0"
    by code_simp
  have l: "ast_json_load_string demo_env (cstr (Some ''{}'')) = Some (JString ''{}'')"
    "ast_json_load_string demo_env (cstr (Some ''pay'')) = Some (JString ''pay'')"
    by (simp_all add: demo_env_def cstr_def)
  show ?thesis
    by (rule verify_warm_cache_unchanged [OF a p x k v l])
qed

section \<open>Verification: what a failure leaves in the store\<close>

lemma curl_and_check_expiration_flag:
  "curl_and_check_expiration e w url path (Some flag) = (Inl AlreadyDownloaded, w)"
  by (simp add: curl_and_check_expiration_def)

lemma verify_download_missing_path:
  assumes "verify_download_missing e w url (get_path_to_public_key e w url) = (Inr (p, c), w1)"
  shows "astdb w1 (ast_sha1_hash e url, ''path'') \<noteq> None"
proof (cases "get_path_to_public_key e w url = []")
  case True
  with assms show ?thesis
    by (auto simp: verify_download_missing_def ast_strlen_zero_def Let_def
        add_public_key_to_astdb_def ast_db_put_def split: prod.splits sum.splits)
next
  case False
  with assms have "w1 = w"
    by (simp add: verify_download_missing_def ast_strlen_zero_def)
  with False show ?thesis
    by (auto simp: get_path_to_public_key_def ast_db_get_def Let_def split: option.splits)
qed

lemma verify_refresh_expired_ok:
  assumes "verify_refresh_expired e w url p c = (Inr c1, w1)"
  shows "w1 = w \<and> \<not> public_key_is_expired e w url"
  using assms
  by (auto simp: verify_refresh_expired_def curl_and_check_expiration_flag split: if_splits)

lemma verify_read_key_ok:
  assumes "verify_read_key e w url p c = (Inr k, w1)"
  shows "w1 = w \<and> stir_shaken_read_key e (files w) p = Some k"
  using assms
  by (auto simp: verify_read_key_def curl_and_check_expiration_flag split: option.splits)

lemma verify_obtain_key_ok:
  assumes "verify_obtain_key e w url = (Inr k, w')"
  shows "\<not> public_key_is_expired e w' url \<and> astdb w' (ast_sha1_hash e url, ''path'') \<noteq> None"
proof -
  from assms obtain p c w1 c1 w2 where
    1: "verify_download_missing e w url (get_path_to_public_key e w url) = (Inr (p, c), w1)" and
    2: "verify_refresh_expired e w1 url p c = (Inr c1, w2)" and
    3: "verify_read_key e w2 url p c1 = (Inr k, w')"
    by (auto simp: verify_obtain_key_def split: prod.splits sum.splits)
  from 2 have "w2 = w1" "\<not> public_key_is_expired e w1 url"
    using verify_refresh_expired_ok by blast+
  moreover from 3 have "w' = w2" using verify_read_key_ok by blast
  ultimately show ?thesis using verify_download_missing_path[OF 1] by simp
qed

text \<open>
  C3, as the code has it. A verification that ends with the signature error has removed
  nothing after the key was obtained: the world it returns is the one in which the key
  was read, the url is still unexpired there and its path record is still in the store.
  (The failure branch of lines 530--534 frees the key and returns.)
\<close>

theorem verify_signature_error_keeps_entry:
  assumes "ast_stir_shaken_verify e w hdr pld sig alg url = (Inl SignatureError, w')"
  shows "(\<exists>public_key. verify_obtain_key e w (cstr url) = (Inr public_key, w')
            \<and> stir_shaken_verify_signature e (cstr pld) (cstr sig) public_key \<noteq> 0)
         \<and> \<not> public_key_is_expired e w' (cstr url)
         \<and> astdb w' (ast_sha1_hash e (cstr url), ''path'') \<noteq> None"
proof -
  have errs: "\<And>k w1. verify_obtain_key e w (cstr url) = (Inl SignatureError, w1) \<Longrightarrow> False"
    by (auto simp: verify_obtain_key_def verify_download_missing_def verify_refresh_expired_def
        verify_read_key_def curl_and_check_expiration_flag run_curl_def Let_def
        split: prod.splits sum.splits if_splits option.splits)
  from assms obtain k where
    k: "verify_obtain_key e w (cstr url) = (Inr k, w')"
       "stir_shaken_verify_signature e (cstr pld) (cstr sig) k \<noteq> 0"
    using errs
    by (auto simp: ast_stir_shaken_verify_def split: if_splits prod.splits sum.splits option.splits)
  with verify_obtain_key_ok[OF k(1)] show ?thesis by blast
qed

theorem verify_signature_error_keeps_entry_witness:
  "\<not> public_key_is_expired demo_env
        (snd (ast_stir_shaken_verify demo_env (cached_world (fmt_30lu 5000)) (Some ''{}'')
           (Some ''pay'') (Some ''xxxxAA=='') (Some ''ES256'') (Some demo_url))) demo_url
   \<and> astdb (snd (ast_stir_shaken_verify demo_env (cached_world (fmt_30lu 5000)) (Some ''{}'')
           (Some ''pay'') (Some ''xxxxAA=='') (Some ''ES256'') (Some demo_url)))
         (ast_sha1_hash demo_env demo_url, ''path'') \<noteq> None"
proof -
  have "fst (ast_stir_shaken_verify demo_env (cached_world (fmt_30lu 5000)) (Some ''{}'')
           (Some ''pay'') (Some ''xxxxAA=='') (Some ''ES256'') (Some demo_url))
        = Inl SignatureError"
    by code_simp
  then have h: "ast_stir_shaken_verify demo_env (cached_world (fmt_30lu 5000)) (Some ''{}'')
           (Some ''pay'') (Some ''xxxxAA=='') (Some ''ES256'') (Some demo_url)
        = (Inl SignatureError,
           snd (ast_stir_shaken_verify demo_env (cached_world (fmt_30lu 5000)) (Some ''{}'')
             (Some ''pay'') (Some ''xxxxAA=='') (Some ''ES256'') (Some demo_url)))"
    by (metis prod.collapse)
  show ?thesis
    using verify_signature_error_keeps_entry [OF h] by (simp add: cstr_def)
qed

text \<open>
  The claim as the spec states it fails on a warm cache: the store holds the url with an
  expiration ahead of the clock, the key file reads, the signature does not match. The
  call returns the signature error, and the index entry and the path are still there.
\<close>

theorem verify_signature_mismatch_counterexample:
  "fst (ast_stir_shaken_verify demo_env (cached_world (fmt_30lu 5000)) (Some ''{}'')
       (Some ''pay'') (Some ''xxxxAA=='') (Some ''ES256'') (Some demo_url)) = Inl SignatureError
   \<and> astdb (snd (ast_stir_shaken_verify demo_env (cached_world (fmt_30lu 5000)) (Some ''{}'')
       (Some ''pay'') (Some ''xxxxAA=='') (Some ''ES256'') (Some demo_url)))
         (AST_DB_FAMILY, demo_url) = Some (ast_sha1_hash demo_env demo_url)
   \<and> get_path_to_public_key demo_env
        (snd (ast_stir_shaken_verify demo_env (cached_world (fmt_30lu 5000)) (Some ''{}'')
           (Some ''pay'') (Some ''xxxxAA=='') (Some ''ES256'') (Some demo_url))) demo_url
       = ''/keys/cert.pem''"
  by code_simp

section \<open>Verification: a cached entry that has expired\<close>

lemma fetches_remove [simp]:
  "fetches (remove_public_key_from_astdb e w url) = fetches w"
  by (simp add: remove_public_key_from_astdb_def Let_def)

text \<open>
  C2, what the code does. The test of line 396 is on the pointer \<open>curl\<close>, which
  \<open>ast_stir_shaken_verify\<close> always passes as \<open>&curl\<close>, so the second download never
  runs: a verification that finds a cached path whose expiration has passed removes the
  entry and fails with "Already downloaded public key", having downloaded nothing.
\<close>

theorem verify_stale_entry_fails_without_fetch:
  assumes "\<not> ast_strlen_zero hdr" "\<not> ast_strlen_zero pld" "\<not> ast_strlen_zero sig"
    "\<not> ast_strlen_zero alg" "\<not> ast_strlen_zero url"
    "get_path_to_public_key e w (cstr url) \<noteq> []"
    "public_key_is_expired e w (cstr url)"
  shows "ast_stir_shaken_verify e w hdr pld sig alg url =
           (Inl AlreadyDownloaded, remove_public_key_from_astdb e w (cstr url))
         \<and> fetches (remove_public_key_from_astdb e w (cstr url)) = fetches w"
  using assms
  by (simp add: ast_stir_shaken_verify_def verify_obtain_key_def verify_download_missing_def
      verify_refresh_expired_def curl_and_check_expiration_flag ast_strlen_zero_def)

theorem verify_stale_entry_fails_without_fetch_witness:
  "fst (ast_stir_shaken_verify demo_env (cached_world (fmt_30lu 1000)) (Some ''{}'')
       (Some ''pay'') (Some ''kpayAA=='') (Some ''ES256'') (Some demo_url)) = Inl AlreadyDownloaded
   \<and> fetches (snd (ast_stir_shaken_verify demo_env (cached_world (fmt_30lu 1000)) (Some ''{}'')
       (Some ''pay'') (Some ''kpayAA=='') (Some ''ES256'') (Some demo_url))) = []"
proof -
  have p: "get_path_to_public_key demo_env (cached_world (fmt_30lu 1000)) (cstr (Some demo_url)) \<noteq> []"
    by code_simp
  have x: "public_key_is_expired demo_env (cached_world (fmt_30lu 1000)) (cstr (Some demo_url))"
    by code_simp
  have a: "\<not> ast_strlen_zero (Some ''{}'')" "\<not> ast_strlen_zero (Some ''pay'')"
    "\<not> ast_strlen_zero (Some ''kpayAA=='')" "\<not> ast_strlen_zero (Some ''ES256'')"
    "\<not> ast_strlen_zero (Some demo_url)"
    by (simp_all add: ast_strlen_zero_def demo_url_def)
  have f: "fetches (cached_world (fmt_30lu 1000)) = []"
    by (simp add: cached_world_def)
  show ?thesis
    using verify_stale_entry_fails_without_fetch [OF a p x] by (simp add: f)
qed

section \<open>Verification: the default path\<close>

lemma fetches_set_expiration [simp]:
  "fetches (set_public_key_expiration e w url data) = fetches w"
  by (simp add: set_public_key_expiration_def Let_def)

lemma fetches_add [simp]:
  "fetches (add_public_key_to_astdb e w url path) = fetches w"
  by (simp add: add_public_key_to_astdb_def Let_def)

lemma fetches_run_curl:
  "fetches (snd (run_curl e w url path)) = fetches w @ [(url, path)]"
  by (simp add: run_curl_def Let_def split: prod.splits option.splits)

lemma verify_download_missing_fetches:
  "fetches (snd (verify_download_missing e w url [])) = fetches w @ [(url, [])]"
proof -
  have "snprintf sizeof_char p = []" for p
    by (simp add: snprintf_def sizeof_char_def)
  then show ?thesis
    using fetches_run_curl [of e "remove_public_key_from_astdb e w url" url "[]"]
    by (auto simp: verify_download_missing_def ast_strlen_zero_def Let_def
        split: prod.splits sum.splits)
qed

text \<open>
  C4, what the code does. The \<open>snprintf\<close> of line 480 is given the size of one
  character, so the default path it writes is the empty string: a verification of a url
  with no cached path asks the downloader for the empty path, whatever the url and the
  data directory are, and the empty path is what it records. In the demo environment the
  spec's default path would be \<open>/var/lib/asterisk/keys/stir_shaken/cert.pem\<close>.
\<close>

theorem verify_default_path_is_empty:
  "fetches (snd (verify_download_missing e w url [])) = fetches w @ [(url, [])]
   \<and> fetches (snd (ast_stir_shaken_verify demo_env (empty_world 2000) (Some ''{}'') (Some ''pay'')
        (Some ''kpayAA=='') (Some ''ES256'') (Some demo_url))) = [(demo_url, [])]
   \<and> astdb (snd (ast_stir_shaken_verify demo_env (empty_world 2000) (Some ''{}'') (Some ''pay'')
        (Some ''kpayAA=='') (Some ''ES256'') (Some demo_url)))
        (ast_sha1_hash demo_env demo_url, ''path'') = Some []
   \<and> ast_config_AST_DATA_DIR demo_env @ ''/keys/'' @ STIR_SHAKEN_DIR_NAME @ ''/''
        @ basename demo_env demo_url = ''/var/lib/asterisk/keys/stir_shaken/cert.pem''"
proof -
  have "fetches (snd (ast_stir_shaken_verify demo_env (empty_world 2000) (Some ''{}'') (Some ''pay'')
        (Some ''kpayAA=='') (Some ''ES256'') (Some demo_url))) = [(demo_url, [])]
   \<and> astdb (snd (ast_stir_shaken_verify demo_env (empty_world 2000) (Some ''{}'') (Some ''pay'')
        (Some ''kpayAA=='') (Some ''ES256'') (Some demo_url)))
        (ast_sha1_hash demo_env demo_url, ''path'') = Some []
   \<and> ast_config_AST_DATA_DIR demo_env @ ''/keys/'' @ STIR_SHAKEN_DIR_NAME @ ''/''
        @ basename demo_env demo_url = ''/var/lib/asterisk/keys/stir_shaken/cert.pem''"
    by code_simp
  then show ?thesis using verify_download_missing_fetches by blast
qed

section \<open>Expiration from Cache-Control\<close>

text \<open>
  What is stored is read back: the \<open>%30lu\<close> text of a second count, cut to the 32
  bytes of the buffers on both sides, parses to that count.
\<close>

lemma small_digit_cases:
  "0 \<le> d \<Longrightarrow> d < 10 \<Longrightarrow>
   d = 0 \<or> d = 1 \<or> d = 2 \<or> d = 3 \<or> d = 4 \<or> d = 5 \<or> d = 6 \<or> d = 7 \<or> d = 8 \<or> d = (9::int)"
  by arith

lemma digit_value_digit_char:
  assumes "0 \<le> d" "d < 10"
  shows "digit_value (digit_char d) = Some d"
  using small_digit_cases [OF assms]
  by (elim disjE) (simp_all add: digit_value_def digit_char_def)

lemma digit_char_not_space:
  assumes "0 \<le> d" "d < 10"
  shows "\<not> isspace (digit_char d) \<and> digit_char d \<noteq> CHR ''-'' \<and> digit_char d \<noteq> CHR ''+''
         \<and> digit_char d \<noteq> CHR ''x'' \<and> digit_char d \<noteq> CHR ''X''
         \<and> (digit_char d = CHR ''0'' \<longleftrightarrow> d = 0)"
  using small_digit_cases [OF assms]
  by (elim disjE) (simp_all add: isspace_def digit_char_def)

lemma parse_digits_snoc:
  "parse_digits b (xs @ [c]) acc =
     (case parse_digits b xs acc of
        None \<Rightarrow> None
      | Some a \<Rightarrow> (case digit_value c of
                    None \<Rightarrow> None
                  | Some d \<Rightarrow> if d < b then Some (a * b + d) else None))"
  by (induction xs arbitrary: acc) (auto split: option.splits)

lemma dec_string_nonempty: "dec_string n \<noteq> []"
  by (subst dec_string.simps) simp

lemma parse_dec_string:
  "0 \<le> n \<Longrightarrow> parse_digits 10 (dec_string n) 0 = Some n"
proof (induction n rule: dec_string.induct)
  case (1 n)
  show ?case
  proof (cases "n < 10")
    case True
    with "1.prems" show ?thesis
      by (subst dec_string.simps) (simp add: digit_value_digit_char)
  next
    case False
    have nn: "0 \<le> n div 10" using "1.prems" by simp
    have ih: "parse_digits 10 (dec_string (n div 10)) 0 = Some (n div 10)"
      using "1.IH" [OF False nn] .
    have d: "digit_value (digit_char (n mod 10)) = Some (n mod 10)"
      by (simp add: digit_value_digit_char)
    from False show ?thesis
      by (subst dec_string.simps) (simp add: parse_digits_snoc ih d)
  qed
qed

lemma hd_dec_string:
  "0 \<le> n \<Longrightarrow> \<exists>d. 0 \<le> d \<and> d < 10 \<and> hd (dec_string n) = digit_char d \<and> (d = 0 \<longleftrightarrow> n = 0)"
proof (induction n rule: dec_string.induct)
  case (1 n)
  show ?case
  proof (cases "n < 10")
    case True
    with "1.prems" show ?thesis
      by (subst dec_string.simps) auto
  next
    case False
    have nn: "0 \<le> n div 10" using "1.prems" by simp
    obtain d where "0 \<le> d" "d < 10" "hd (dec_string (n div 10)) = digit_char d"
      "d = 0 \<longleftrightarrow> n div 10 = 0"
      using "1.IH" [OF False nn] by auto
    moreover have "n div 10 \<noteq> 0" using False by simp
    moreover have "hd (dec_string n) = hd (dec_string (n div 10))"
      using False by (subst dec_string.simps) (simp add: dec_string_nonempty)
    ultimately show ?thesis using False by auto
  qed
qed

lemma dec_string_zero: "dec_string 0 = ''0''"
  by (subst dec_string.simps) (simp add: digit_char_def)

lemma second_dec_string:
  "0 \<le> n \<Longrightarrow> \<not> prefix ''0x'' (dec_string n) \<and> \<not> prefix ''0X'' (dec_string n)"
proof (cases "n = 0")
  case True
  then show ?thesis by (simp add: dec_string_zero)
next
  case False
  assume "0 \<le> n"
  then obtain d where d: "0 \<le> d" "d < 10" "hd (dec_string n) = digit_char d" "d \<noteq> 0"
    using hd_dec_string [of n] False by auto
  then have "hd (dec_string n) \<noteq> CHR ''0''" using digit_char_not_space by auto
  then show ?thesis
    by (cases "dec_string n") (auto simp: prefix_def)
qed

lemma length_dec_string:
  "0 \<le> n \<Longrightarrow> n < 10 ^ k \<Longrightarrow> 0 < k \<Longrightarrow> length (dec_string n) \<le> k"
proof (induction n arbitrary: k rule: dec_string.induct)
  case (1 n)
  show ?case
  proof (cases "n < 10")
    case True
    then show ?thesis using "1.prems" by (subst dec_string.simps) simp
  next
    case False
    then obtain k' where k: "k = Suc k'"
      using "1.prems" by (cases k) auto
    have "k' > 0" using False "1.prems" k by (cases k') auto
    moreover have "n div 10 < 10 ^ k'" using "1.prems" k by simp
    ultimately have "length (dec_string (n div 10)) \<le> k'"
      using "1.IH" [of k'] False "1.prems" by simp
    then show ?thesis using False k by (subst dec_string.simps) simp
  qed
qed

lemma length_fmt_30lu:
  assumes "0 \<le> v" "v < 2 ^ 64"
  shows "length (fmt_30lu v) = 30"
proof -
  have "v < 10 ^ 20" using assms(2) by simp
  then have "length (dec_string v) \<le> 20"
    using length_dec_string [of v 20] assms(1) by simp
  then show ?thesis using assms by (simp add: fmt_30lu_def Let_def)
qed

lemma dropWhile_replicate_space:
  "dropWhile isspace (replicate m CHR '' '' @ ys) = dropWhile isspace ys"
  by (induction m) (simp_all add: isspace_def)

lemma ast_str_to_umax_dec_string:
  assumes "0 \<le> n" "n < 2 ^ 64"
  shows "ast_str_to_umax (replicate m CHR '' '' @ dec_string n) = Some n"
proof -
  obtain d where d: "0 \<le> d" "d < 10" "hd (dec_string n) = digit_char d" "d = 0 \<longleftrightarrow> n = 0"
    using hd_dec_string [OF assms(1)] by auto
  obtain c cs where ds: "dec_string n = c # cs"
    using dec_string_nonempty [of n] by (cases "dec_string n") auto
  with d have c: "c = digit_char d" by simp
  have props: "\<not> isspace c" "c \<noteq> CHR ''-''" "c \<noteq> CHR ''+''" "c = CHR ''0'' \<longleftrightarrow> n = 0"
    using digit_char_not_space [OF d(1,2)] c d(4) by auto
  have s1: "dropWhile isspace (replicate m CHR '' '' @ dec_string n) = dec_string n"
    using props(1) by (simp add: dropWhile_replicate_space ds)
  have nohex: "\<not> prefix ''0x'' (dec_string n)" "\<not> prefix ''0X'' (dec_string n)"
    using second_dec_string [OF assms(1)] by auto
  show ?thesis
  proof (cases "n = 0")
    case True
    have "parse_digits 8 ''0'' 0 = Some 0" by (simp add: digit_value_def)
    then show ?thesis
      using True by (simp add: ast_str_to_umax_def Let_def dropWhile_replicate_space
          dec_string_zero isspace_def)
  next
    case False
    then have "c \<noteq> CHR ''0''" using props(4) by simp
    then have "\<not> prefix ''0'' (dec_string n)" by (simp add: ds)
    moreover have "\<not> prefix ''-'' (dec_string n)" "\<not> prefix ''+'' (dec_string n)"
      using props(2,3) by (simp_all add: ds)
    ultimately show ?thesis
      using nohex parse_dec_string [OF assms(1)] assms(2) dec_string_nonempty [of n]
      by (simp add: ast_str_to_umax_def Let_def s1)
  qed
qed

lemma ast_str_to_ulong_fmt_30lu:
  assumes "0 \<le> v" "v < 2 ^ 64"
  shows "ast_str_to_ulong (fmt_30lu v) = Some v"
  using ast_str_to_umax_dec_string [OF assms] assms
  by (simp add: ast_str_to_ulong_def fmt_30lu_def Let_def)

lemma stored_expiration_roundtrip:
  assumes "0 \<le> v" "v < 2 ^ 63" "0 \<le> tv_usec (now w)"
    "astdb w (ast_sha1_hash e url, ''expiration'') = Some (snprintf 32 (fmt_30lu v))"
  shows "public_key_is_expired e w url \<longleftrightarrow> v \<le> tv_sec (now w)"
proof -
  have v64: "v < 2 ^ 64" using assms(2) by simp
  have l: "length (fmt_30lu v) = 30" using length_fmt_30lu [OF assms(1) v64] .
  then have ne: "fmt_30lu v \<noteq> []" by auto
  have "ast_db_get (astdb w) (ast_sha1_hash e url) ''expiration'' 32 = fmt_30lu v"
    using assms(4) l by (simp add: ast_db_get_def snprintf_def)
  then show ?thesis
    using ast_str_to_ulong_fmt_30lu [OF assms(1) v64] assms(2,3) ne
    by (auto simp: public_key_is_expired_def Let_def ast_strlen_zero_def ast_tvcmp_def)
qed

text \<open>
  The first half of C6 holds in general. When the expiration is set at second \<open>T\<close> (not
  before 1970, and far from the end of the 64-bit range) from \<open>Cache-Control: max-age=60\<close>,
  the url is expired at a later clock reading exactly when its seconds have reached
  \<open>T + 60\<close>.
\<close>

theorem max_age_sets_expiration:
  assumes "0 \<le> tv_sec (now w)" "tv_sec (now w) + 60 < 2 ^ 63" "0 \<le> tv_usec (now w')"
    "astdb w' = astdb (set_public_key_expiration e w url
                        \<lparr>cache_control = Some ''max-age=60'', expires = x\<rparr>)"
  shows "public_key_is_expired e w' url \<longleftrightarrow> tv_sec (now w) + 60 \<le> tv_sec (now w')"
proof -
  have 1: "strstr ''max-age=60'' ''s-maxage'' = None" by code_simp
  have 2: "strstr ''max-age=60'' ''max-age'' = Some ''max-age=60''" by code_simp
  have 3: "strchr ''max-age=60'' CHR ''='' = Some ''=60''" by code_simp
  have 4: "ast_str_to_uint ''60'' = Some 60" by code_simp
  have "astdb w' (ast_sha1_hash e url, ''expiration'')
          = Some (snprintf 32 (fmt_30lu (tv_sec (now w) + 60)))"
    by (simp add: assms(4) set_public_key_expiration_def Let_def ast_strlen_zero_def 1 2 3 4
        ast_db_put_def)
  then show ?thesis
    using stored_expiration_roundtrip [of "tv_sec (now w) + 60" w' e url] assms by simp
qed

theorem max_age_sets_expiration_witness:
  "\<not> public_key_is_expired demo_env
       ((set_public_key_expiration demo_env (empty_world 1000) demo_url
           \<lparr>cache_control = Some ''max-age=60'', expires = None\<rparr>)
        \<lparr>now := \<lparr>tv_sec = 1059, tv_usec = 999999\<rparr>\<rparr>) demo_url
   \<and> public_key_is_expired demo_env
       ((set_public_key_expiration demo_env (empty_world 1000) demo_url
           \<lparr>cache_control = Some ''max-age=60'', expires = None\<rparr>)
        \<lparr>now := \<lparr>tv_sec = 1060, tv_usec = 0\<rparr>\<rparr>) demo_url"
  using max_age_sets_expiration [of "empty_world 1000"
      "(set_public_key_expiration demo_env (empty_world 1000) demo_url
           \<lparr>cache_control = Some ''max-age=60'', expires = None\<rparr>)
        \<lparr>now := \<lparr>tv_sec = 1059, tv_usec = 999999\<rparr>\<rparr>" demo_env demo_url None]
    max_age_sets_expiration [of "empty_world 1000"
      "(set_public_key_expiration demo_env (empty_world 1000) demo_url
           \<lparr>cache_control = Some ''max-age=60'', expires = None\<rparr>)
        \<lparr>now := \<lparr>tv_sec = 1060, tv_usec = 0\<rparr>\<rparr>" demo_env demo_url None]
  by (simp add: empty_world_def)

text \<open>
  C6, what the code does with \<open>Cache-Control: s-maxage=30, max-age=60\<close>. The directive
  \<open>s-maxage\<close> is the one selected, and the text after its \<open>=\<close>, up to the end of the
  header (\<open>30, max-age=60\<close>), is handed to \<open>ast_str_to_uint\<close>, which rejects it: nothing
  is added and the stored expiration is the time of the download, so the key counts as
  expired at once.
\<close>

theorem s_maxage_before_max_age_is_not_applied:
  "astdb (set_public_key_expiration e w url
            \<lparr>cache_control = Some ''s-maxage=30, max-age=60'', expires = x\<rparr>)
      (ast_sha1_hash e url, ''expiration'') = Some (snprintf 32 (fmt_30lu (tv_sec (now w))))
   \<and> astdb (set_public_key_expiration demo_env (empty_world 1000) demo_url
            \<lparr>cache_control = Some ''s-maxage=30, max-age=60'', expires = None\<rparr>)
      (ast_sha1_hash demo_env demo_url, ''expiration'') = Some (fmt_30lu 1000)
   \<and> public_key_is_expired demo_env
        (set_public_key_expiration demo_env (empty_world 1000) demo_url
            \<lparr>cache_control = Some ''s-maxage=30, max-age=60'', expires = None\<rparr>) demo_url"
proof -
  have 1: "strstr ''s-maxage=30, max-age=60'' ''s-maxage'' = Some ''s-maxage=30, max-age=60''"
    by code_simp
  have 2: "strchr ''s-maxage=30, max-age=60'' CHR ''='' = Some ''=30, max-age=60''"
    by code_simp
  have 3: "ast_str_to_uint ''30, max-age=60'' = None"
    by code_simp
  have g: "astdb (set_public_key_expiration e w url
            \<lparr>cache_control = Some ''s-maxage=30, max-age=60'', expires = x\<rparr>)
      (ast_sha1_hash e url, ''expiration'') = Some (snprintf 32 (fmt_30lu (tv_sec (now w))))"
    by (simp add: set_public_key_expiration_def Let_def ast_strlen_zero_def 1 2 3 ast_db_put_def)
  have d: "astdb (set_public_key_expiration demo_env (empty_world 1000) demo_url
            \<lparr>cache_control = Some ''s-maxage=30, max-age=60'', expires = None\<rparr>)
      (ast_sha1_hash demo_env demo_url, ''expiration'') = Some (fmt_30lu 1000)
   \<and> public_key_is_expired demo_env
        (set_public_key_expiration demo_env (empty_world 1000) demo_url
            \<lparr>cache_control = Some ''s-maxage=30, max-age=60'', expires = None\<rparr>) demo_url"
    by code_simp
  from g d show ?thesis by blast
qed

section \<open>The JWT profile\<close>

lemma check_required_ok:
  "check_required obj field required = Inr v \<longleftrightarrow>
     (ast_json_string_get (ast_json_object_get (Some obj) field) = Some required \<and> required \<noteq> []
      \<and> v = required)"
  by (auto simp: check_required_def Let_def ast_strlen_zero_def cstr_def split: option.splits)

lemma check_required_err:
  "check_required obj field required = Inl err \<Longrightarrow> \<exists>x y. err = ProfileError field x y"
  by (auto simp: check_required_def Let_def split: if_splits)
lemma verify_json_violation:
  assumes "profile_violation j = Some f"
  shows "\<exists>x y. stir_shaken_verify_json j = Inl (ProfileError f x y)"
proof (cases "ast_json_object_get (Some j) ''header''")
  case None
  with assms show ?thesis
    by (simp add: profile_violation_def stir_shaken_verify_json_def)
next
  case (Some obj)
  note h = Some
  have c: "\<And>k req. req \<noteq> [] \<Longrightarrow> header_field j k = Some req \<longleftrightarrow> check_required obj k req = Inr req"
    by (auto simp: header_field_def h check_required_ok)
  show ?thesis
  proof (cases "check_required obj ''ppt'' STIR_SHAKEN_PPT")
    case (Inl err)
    then obtain x y where "err = ProfileError ''ppt'' x y" using check_required_err by blast
    moreover from Inl have "header_field j ''ppt'' \<noteq> Some ''shaken''"
      using c[of "''shaken''" "''ppt''"] by (simp add: STIR_SHAKEN_PPT_def)
    ultimately show ?thesis using assms Inl h
      by (simp add: profile_violation_def stir_shaken_verify_json_def)
  next
    case (Inr v1)
    note ppt_ok = Inr
    then have ppt_f: "header_field j ''ppt'' = Some ''shaken''"
      by (simp add: header_field_def h check_required_ok STIR_SHAKEN_PPT_def)
    show ?thesis
    proof (cases "check_required obj ''typ'' STIR_SHAKEN_TYPE")
      case (Inl err)
      then obtain x y where "err = ProfileError ''typ'' x y" using check_required_err by blast
      moreover from Inl have "header_field j ''typ'' \<noteq> Some ''passport''"
        using c[of "''passport''" "''typ''"] by (simp add: STIR_SHAKEN_TYPE_def)
      ultimately show ?thesis using assms Inl h ppt_f ppt_ok
        by (simp add: profile_violation_def stir_shaken_verify_json_def)
    next
      case (Inr v2)
      note typ_ok = Inr
      then have typ_f: "header_field j ''typ'' = Some ''passport''"
        by (simp add: header_field_def h check_required_ok STIR_SHAKEN_TYPE_def)
      show ?thesis
      proof (cases "check_required obj ''alg'' STIR_SHAKEN_ENCRYPTION_ALGORITHM")
        case (Inl err)
        then obtain x y where "err = ProfileError ''alg'' x y" using check_required_err by blast
        moreover from Inl have "header_field j ''alg'' \<noteq> Some ''ES256''"
          using c[of "''ES256''" "''alg''"] by (simp add: STIR_SHAKEN_ENCRYPTION_ALGORITHM_def)
        ultimately show ?thesis
          using assms Inl h ppt_f typ_f typ_ok ppt_ok
          by (simp add: profile_violation_def stir_shaken_verify_json_def)
      next
        case (Inr v3)
        then have alg_f: "header_field j ''alg'' = Some ''ES256''"
          by (simp add: header_field_def h check_required_ok STIR_SHAKEN_ENCRYPTION_ALGORITHM_def)
        show ?thesis
          using assms h ppt_f typ_f alg_f typ_ok Inr ppt_ok
          by (auto simp: profile_violation_def stir_shaken_verify_json_def orig_tn_def
              ast_strlen_zero_def split: option.splits if_splits)
      qed
    qed
  qed
qed

lemma verify_json_ok:
  assumes "profile_violation j = None"
  shows "\<exists>h p. ast_json_object_get (Some j) ''header'' = Some h
           \<and> ast_json_object_get (Some j) ''payload'' = Some p
           \<and> stir_shaken_verify_json j =
               Inr \<lparr>header = Some h, payload = Some p, signature = None,
                    algorithm = Some ''ES256'', public_key_url = None\<rparr>"
proof -
  from assms obtain h p where h: "ast_json_object_get (Some j) ''header'' = Some h"
    and p: "ast_json_object_get (Some j) ''payload'' = Some p"
    by (auto simp: profile_violation_def split: if_splits)
  from assms have f: "header_field j ''ppt'' = Some ''shaken''" "header_field j ''typ'' = Some ''passport''"
    "header_field j ''alg'' = Some ''ES256''" "orig_tn j \<noteq> None" "orig_tn j \<noteq> Some []"
    by (auto simp: profile_violation_def split: if_splits)
  have "check_required h ''ppt'' STIR_SHAKEN_PPT = Inr ''shaken''"
    "check_required h ''typ'' STIR_SHAKEN_TYPE = Inr ''passport''"
    "check_required h ''alg'' STIR_SHAKEN_ENCRYPTION_ALGORITHM = Inr ''ES256''"
    using f h by (simp_all add: check_required_ok header_field_def STIR_SHAKEN_PPT_def
        STIR_SHAKEN_TYPE_def STIR_SHAKEN_ENCRYPTION_ALGORITHM_def)
  then have "stir_shaken_verify_json j =
               Inr \<lparr>header = Some h, payload = Some p, signature = None,
                    algorithm = Some ''ES256'', public_key_url = None\<rparr>"
    using h p f(4,5) by (auto simp: stir_shaken_verify_json_def orig_tn_def ast_strlen_zero_def
        calloc_payload_def ast_json_deep_copy_def split: option.splits)
  with h p show ?thesis by blast
qed

text \<open>
  C5. An input that breaks a constraint of the profile makes the signing fail with the
  profile error that names the field, the first one in the order the code checks them
  (a missing header or payload object under that object's name), and the caller's JSON is
  untouched; an input that breaks none passes the validation, which returns a payload
  with the header and the payload of the input as copies, the algorithm \<open>ES256\<close> and
  nothing else set.
\<close>

theorem sign_profile_validation:
  "(profile_violation j = Some f \<longrightarrow>
      (\<exists>x y. ast_stir_shaken_sign e tv j = (Inl (ProfileError f x y), j))) \<and>
   (profile_violation j = None \<longrightarrow>
      (\<exists>h p. ast_json_object_get (Some j) ''header'' = Some h
           \<and> ast_json_object_get (Some j) ''payload'' = Some p
           \<and> stir_shaken_verify_json j =
               Inr \<lparr>header = Some h, payload = Some p, signature = None,
                    algorithm = Some ''ES256'', public_key_url = None\<rparr>))"
proof (intro conjI impI)
  assume "profile_violation j = Some f"
  then obtain x y where "stir_shaken_verify_json j = Inl (ProfileError f x y)"
    using verify_json_violation by blast
  then show "\<exists>x y. ast_stir_shaken_sign e tv j = (Inl (ProfileError f x y), j)"
    by (simp add: ast_stir_shaken_sign_def)
next
  assume "profile_violation j = None"
  then show "\<exists>h p. ast_json_object_get (Some j) ''header'' = Some h
           \<and> ast_json_object_get (Some j) ''payload'' = Some p
           \<and> stir_shaken_verify_json j =
               Inr \<lparr>header = Some h, payload = Some p, signature = None,
                    algorithm = Some ''ES256'', public_key_url = None\<rparr>"
    by (rule verify_json_ok)
qed

theorem sign_profile_validation_witness:
  "(\<exists>x y. ast_stir_shaken_sign demo_env \<lparr>tv_sec = 2000, tv_usec = 0\<rparr> demo_jwt_no_typ
            = (Inl (ProfileError ''typ'' x y), demo_jwt_no_typ))
   \<and> (\<exists>h p. stir_shaken_verify_json demo_jwt =
               Inr \<lparr>header = Some h, payload = Some p, signature = None,
                    algorithm = Some ''ES256'', public_key_url = None\<rparr>)"
proof -
  have 1: "profile_violation demo_jwt_no_typ = Some ''typ''"
    by code_simp
  have 2: "profile_violation demo_jwt = None"
    by code_simp
  show ?thesis
    using sign_profile_validation [of demo_jwt_no_typ "''typ''" demo_env
        "\<lparr>tv_sec = 2000, tv_usec = 0\<rparr>"]
      sign_profile_validation [of demo_jwt "''typ''" demo_env "\<lparr>tv_sec = 2000, tv_usec = 0\<rparr>"]
    by (simp add: 1 2) blast
qed

section \<open>Signing: where the injected fields go\<close>

lemma json_set_in_member:
  assumes "json_set_in j sect key val = (0, j')"
  shows "json_member j' s k = (if s = sect \<and> k = key then val else json_member j s k)"
proof -
  from assms obtain v root members where
    val: "val = Some v" and j: "j = JObject root" and
    m: "map_of root sect = Some (JObject members)" and
    j': "j' = JObject (AList.update sect (JObject (AList.update key v members)) root)"
    by (auto simp: json_set_in_def split: option.splits json.splits)
  show ?thesis
  proof (cases "s = sect")
    case True
    then show ?thesis
      by (simp add: json_member_def ast_json_object_get_def update_conv' val j m j')
  next
    case False
    then show ?thesis
      by (simp add: json_member_def ast_json_object_get_def update_conv' val j j')
  qed
qed

lemma add_x5u_member:
  assumes "stir_shaken_add_x5u j (Some u) = (0, j')"
  shows "json_member j' s k = (if s = ''header'' \<and> k = ''x5u'' then Some (JString u) else json_member j s k)"
  using assms json_set_in_member[of j "''header''" "''x5u''" "Some (JString u)" j' s k]
  by (simp add: stir_shaken_add_x5u_def ast_json_string_create_def)

lemma add_attest_member:
  assumes "stir_shaken_add_attest j (Some a) = (0, j')"
  shows "json_member j' s k = (if s = ''payload'' \<and> k = ''attest'' then Some (JString a) else json_member j s k)"
  using assms json_set_in_member[of j "''payload''" "''attest''" "Some (JString a)" j' s k]
  by (simp add: stir_shaken_add_attest_def ast_json_string_create_def)

lemma add_origid_member:
  assumes "stir_shaken_add_origid j (Some a) = (0, j')"
  shows "json_member j' s k = (if s = ''payload'' \<and> k = ''origid'' then Some (JString a) else json_member j s k)"
  using assms json_set_in_member[of j "''payload''" "''origid''" "Some (JString a)" j' s k]
  by (simp add: stir_shaken_add_origid_def ast_json_string_create_def)

lemma add_iat_member:
  assumes "stir_shaken_add_iat j tv = (0, j')"
  shows "json_member j' s k = (if s = ''payload'' \<and> k = ''iat'' then Some (JInteger (iat_timestamp tv)) else json_member j s k)"
  using assms json_set_in_member[of j "''payload''" "''iat''" "Some (JInteger (iat_timestamp tv))" j' s k]
  by (simp add: stir_shaken_add_iat_def)

lemma verify_json_copies:
  assumes "stir_shaken_verify_json j = Inr pl"
  shows "header pl = ast_json_object_get (Some j) ''header'' \<and>
         payload pl = ast_json_object_get (Some j) ''payload'' \<and>
         header pl \<noteq> None \<and> payload pl \<noteq> None \<and> signature pl = None \<and>
         algorithm pl = Some ''ES256'' \<and> public_key_url pl = None"
  using assms
  by (auto simp: stir_shaken_verify_json_def calloc_payload_def ast_json_deep_copy_def
      check_required_ok STIR_SHAKEN_ENCRYPTION_ALGORITHM_def
      split: option.splits sum.splits if_splits)

text \<open>
  C1, as the code has it. The four fields are set in the caller's JSON, which the call
  changes in place: after a successful signing its header has \<open>x5u\<close> equal to the public
  key url of the certificate that the store holds for the caller number of the input
  (its \<open>payload.orig.tn\<close>), and its payload has \<open>attest\<close> equal to \<open>B\<close>, \<open>origid\<close> equal to
  \<open>asterisk\<close> and the integer \<open>iat\<close>. The header and payload of the returned record are
  the copies that the validation made before, so they are those of the input; its
  algorithm is \<open>ES256\<close>, and its signature is the one made with the private key of that
  certificate over the printed form of the caller's JSON after the injection.
\<close>

theorem sign_injects_into_callers_json:
  assumes "ast_stir_shaken_sign e tv j = (Inr r, j')"
  shows "\<exists>tn cert json_str.
           orig_tn j = Some tn
         \<and> stir_shaken_certificate_get_by_caller_id_number e tn = Some cert
         \<and> json_member j' ''header'' ''x5u'' = Some (JString (cert_public_key_url cert))
         \<and> json_member j' ''payload'' ''attest'' = Some (JString ''B'')
         \<and> json_member j' ''payload'' ''origid'' = Some (JString ''asterisk'')
         \<and> json_member j' ''payload'' ''iat'' = Some (JInteger (iat_timestamp tv))
         \<and> header r = ast_json_object_get (Some j) ''header''
         \<and> payload r = ast_json_object_get (Some j) ''payload''
         \<and> algorithm r = Some ''ES256''
         \<and> ast_json_dump_string e j' = Some json_str
         \<and> signature r = stir_shaken_sign e json_str (cert_private_key cert)"
proof -
  from assms obtain pl tn cert j1 j2 j3 json_str sg where
    v: "stir_shaken_verify_json j = Inr pl" and
    t: "orig_tn j = Some tn" and
    c: "stir_shaken_certificate_get_by_caller_id_number e tn = Some cert" and
    1: "stir_shaken_add_x5u j (Some (cert_public_key_url cert)) = (0, j1)" and
    2: "stir_shaken_add_attest j1 (Some ''B'') = (0, j2)" and
    3: "stir_shaken_add_origid j2 (Some ''asterisk'') = (0, j3)" and
    4: "stir_shaken_add_iat j3 tv = (0, j')" and
    d: "ast_json_dump_string e j' = Some json_str" and
    s: "stir_shaken_sign e json_str (cert_private_key cert) = Some sg" and
    r: "r = pl\<lparr>signature := Some sg\<rparr>"
    by (auto simp: ast_stir_shaken_sign_def orig_tn_def
        split: sum.splits option.splits prod.splits if_splits)
  have "json_member j' ''header'' ''x5u'' = Some (JString (cert_public_key_url cert))"
    by (simp add: add_iat_member[OF 4] add_origid_member[OF 3] add_attest_member[OF 2]
        add_x5u_member[OF 1])
  moreover have "json_member j' ''payload'' ''attest'' = Some (JString ''B'')"
    by (simp add: add_iat_member[OF 4] add_origid_member[OF 3] add_attest_member[OF 2])
  moreover have "json_member j' ''payload'' ''origid'' = Some (JString ''asterisk'')"
    by (simp add: add_iat_member[OF 4] add_origid_member[OF 3])
  moreover have "json_member j' ''payload'' ''iat'' = Some (JInteger (iat_timestamp tv))"
    by (simp add: add_iat_member[OF 4])
  moreover have "header r = ast_json_object_get (Some j) ''header''"
    "payload r = ast_json_object_get (Some j) ''payload''"
    "algorithm r = Some ''ES256''"
    using verify_json_copies[OF v] r by simp_all
  moreover have "signature r = stir_shaken_sign e json_str (cert_private_key cert)"
    using r s by simp
  ultimately show ?thesis using t c d by blast
qed

theorem sign_injects_into_callers_json_witness:
  "orig_tn demo_jwt = Some ''+15557654321''
   \<and> json_member demo_jwt_signed ''header'' ''x5u''
        = Some (JString ''http://example.com/other.pem'')
   \<and> json_member demo_jwt_signed ''payload'' ''attest'' = Some (JString ''B'')
   \<and> json_member demo_jwt_signed ''payload'' ''origid'' = Some (JString ''asterisk'')
   \<and> json_member demo_jwt_signed ''payload'' ''iat''
        = Some (JInteger (iat_timestamp \<lparr>tv_sec = 2000, tv_usec = 0\<rparr>))
   \<and> header demo_signed = ast_json_object_get (Some demo_jwt) ''header''
   \<and> payload demo_signed = ast_json_object_get (Some demo_jwt) ''payload''
   \<and> algorithm demo_signed = Some ''ES256''
   \<and> signature demo_signed = stir_shaken_sign demo_env ''{}'' ''key2''"
proof -
  have h: "ast_stir_shaken_sign demo_env \<lparr>tv_sec = 2000, tv_usec = 0\<rparr> demo_jwt
           = (Inr demo_signed, demo_jwt_signed)"
    by code_simp
  have t: "orig_tn demo_jwt = Some ''+15557654321''"
    by code_simp
  have c: "stir_shaken_certificate_get_by_caller_id_number demo_env ''+15557654321''
           = Some \<lparr>cert_public_key_url = ''http://example.com/other.pem'',
                    cert_private_key = ''key2''\<rparr>"
    by (simp add: demo_env_def)
  have d: "ast_json_dump_string demo_env demo_jwt_signed = Some ''{}''"
    by (simp add: demo_env_def)
  from sign_injects_into_callers_json [OF h] obtain tn cert json_str where a:
    "orig_tn demo_jwt = Some tn"
    "stir_shaken_certificate_get_by_caller_id_number demo_env tn = Some cert"
    "json_member demo_jwt_signed ''header'' ''x5u'' = Some (JString (cert_public_key_url cert))"
    "json_member demo_jwt_signed ''payload'' ''attest'' = Some (JString ''B'')"
    "json_member demo_jwt_signed ''payload'' ''origid'' = Some (JString ''asterisk'')"
    "json_member demo_jwt_signed ''payload'' ''iat''
        = Some (JInteger (iat_timestamp \<lparr>tv_sec = 2000, tv_usec = 0\<rparr>))"
    "header demo_signed = ast_json_object_get (Some demo_jwt) ''header''"
    "payload demo_signed = ast_json_object_get (Some demo_jwt) ''payload''"
    "algorithm demo_signed = Some ''ES256''"
    "ast_json_dump_string demo_env demo_jwt_signed = Some json_str"
    "signature demo_signed = stir_shaken_sign demo_env json_str (cert_private_key cert)"
    by blast
  from a(1) t have tn: "tn = ''+15557654321''" by simp
  with a(2) c have cert: "cert = \<lparr>cert_public_key_url = ''http://example.com/other.pem'',
                    cert_private_key = ''key2''\<rparr>" by simp
  from a(10) d have js: "json_str = ''{}''" by simp
  show ?thesis
    using t a(3-9) a(11) by (simp add: cert js)
qed

text \<open>
  The claim as the spec states it fails for the demo JWT: the signing succeeds, and the
  header of the record it returns has no \<open>x5u\<close>, its payload no \<open>attest\<close>, \<open>origid\<close> or
  \<open>iat\<close>.
\<close>

theorem sign_returned_record_counterexample:
  "fst (ast_stir_shaken_sign demo_env \<lparr>tv_sec = 2000, tv_usec = 0\<rparr> demo_jwt) = Inr demo_signed
   \<and> ast_json_object_get (header demo_signed) ''x5u'' = None
   \<and> ast_json_object_get (payload demo_signed) ''attest'' = None
   \<and> ast_json_object_get (payload demo_signed) ''origid'' = None
   \<and> ast_json_object_get (payload demo_signed) ''iat'' = None"
  by code_simp

end
